theory Spec2Isabelle
  imports Main "HOL-Library.Word"
begin

unbundle bit_operations_syntax

section \<open>Smooth Streaming initialisation segments: the model\<close>

text \<open>
  A shallow embedding of \<^verbatim>\<open>moov_processor.go\<close>, \<^verbatim>\<open>errors.go\<close> and of the
  \<^verbatim>\<open>StreamFragment\<close> declaration of the manifest types. Go's \<^verbatim>\<open>(value, err)\<close> results
  are sums; a run-time panic is a failure of its own kind, distinct from every error value.
\<close>

subsection \<open>Bytes, four-character codes, errors and panics\<close>

type_synonym byte = "8 word"

text \<open>
  Modelled from the spec: the types \<^verbatim>\<open>mp4.FourCC\<close> and \<^verbatim>\<open>mp4.BoxType\<close> and the codes
  \<^verbatim>\<open>mp4.Avc1FourCC\<close>, \<^verbatim>\<open>mp4.EncvBoxType\<close> and so on, which the external container package
  declares. Both types are four-character codes, converted into each other by a plain
  type conversion and printed by \<^verbatim>\<open>%s\<close> as their characters; they are strings here, and
  each code has the characters that the specification gives for it (section 4.4), the
  second HEVC code those of its name.
\<close>

type_synonym FourCC = string
type_synonym BoxType = string

definition Avc1FourCC :: FourCC where "Avc1FourCC = ''avc1''"
definition Hvc1FourCC :: FourCC where "Hvc1FourCC = ''hvc1''"
definition Hev1FourCC :: FourCC where "Hev1FourCC = ''hev1''"
definition CencFourCC :: FourCC where "CencFourCC = ''cenc''"
definition Iso6FourCC :: FourCC where "Iso6FourCC = ''iso6''"
definition IsomFourCC :: FourCC where "IsomFourCC = ''isom''"
definition MsdhFourCC :: FourCC where "MsdhFourCC = ''msdh''"
definition VideFourCC :: FourCC where "VideFourCC = ''vide''"
definition SounFourCC :: FourCC where "SounFourCC = ''soun''"
definition MetaFourCC :: FourCC where "MetaFourCC = ''meta''"
definition EncvBoxType :: BoxType where "EncvBoxType = ''encv''"

text \<open>\<^verbatim>\<open>errors.go\<close>: the two sentinel errors and their texts.\<close>

datatype sentinel = ErrUnknownCodec | ErrInvalidParam

fun sentinel_text :: "sentinel \<Rightarrow> string" where
  "sentinel_text ErrUnknownCodec = ''codec not supported''"
| "sentinel_text ErrInvalidParam = ''invalid parameter''"

text \<open>
  An error value carries its message and the sentinel it wraps through \<^verbatim>\<open>%w\<close>, if any
  (what \<^verbatim>\<open>errors.Is\<close> would find).
\<close>

datatype error = Errorf (message: string) (wrapped: "sentinel option")

text \<open>\<^verbatim>\<open>index out of range [i] with length n\<close>\<close>

datatype panic = IndexOutOfRange nat nat

datatype failure = Error error | Panic panic

type_synonym 'a result = "failure + 'a"

text \<open>An indexed read \<^verbatim>\<open>xs[i]\<close> of a slice, with Go's bounds check.\<close>

definition index :: "'a list \<Rightarrow> nat \<Rightarrow> 'a result" where
  "index xs i = (if i < length xs then Inr (xs ! i) else Inl (Panic (IndexOutOfRange i (length xs))))"

subsection \<open>\<^verbatim>\<open>bytes.Split\<close>\<close>

text \<open>
  The standard library's \<^verbatim>\<open>bytes.Split(s, sep)\<close> for a non-empty separator: the
  subslices between the non-overlapping occurrences of \<open>sep\<close>, found from the left; the
  result always holds at least one slice (\<open>s\<close> itself when \<open>sep\<close> does not occur).
  \<open>split_from sep cur s\<close> scans \<open>s\<close> with \<open>cur\<close> the bytes of the current subslice read so
  far. Both call sites pass the four-byte start code; for an empty separator Go splits
  after each UTF-8 sequence, which this model does not reproduce.
\<close>

fun split_from :: "byte list \<Rightarrow> byte list \<Rightarrow> byte list \<Rightarrow> byte list list" where
  "split_from sep cur [] = [cur]"
| "split_from sep cur (x # xs) =
     (if take (length sep) (x # xs) = sep
      then cur # split_from sep [] (drop (length sep - 1) xs)
      else split_from sep (cur @ [x]) xs)"

definition bytes_Split :: "byte list \<Rightarrow> byte list \<Rightarrow> byte list list" where
  "bytes_Split s sep = split_from sep [] s"

definition start_code :: "byte list" where
  "start_code = [0, 0, 0, 1]"

subsection \<open>Decoder configuration records\<close>

text \<open>
  \<^verbatim>\<open>avc.AVCDecoderConfigurationRecord\<close>; an \<^verbatim>\<open>AVCSequenceParameterSet\<close> or
  \<^verbatim>\<open>AVCPictureParameterSet\<close> holds one field, its NAL unit, and is modelled by it.
\<close>

record AVCDecoderConfigurationRecord =
  ConfigurationVersion :: byte
  AVCProfileIndication :: byte
  ProfileCompatibility :: byte
  AVCLevelIndication :: byte
  LengthSizeMinusOne :: byte
  SequenceParameterSets :: "byte list list"
  PictureParameterSets :: "byte list list"

text \<open>
  Modelled from the spec: the NAL unit type codes \<^verbatim>\<open>avc.NALU_SPS\<close>, \<^verbatim>\<open>avc.NALU_PPS\<close>,
  \<^verbatim>\<open>hevc.NALU_VPS\<close>, \<^verbatim>\<open>hevc.NALU_SPS\<close> and \<^verbatim>\<open>hevc.NALU_PPS\<close> of the external codec
  package. The AVC codes are the types 7 and 8 of section 4.2; for the HEVC codes the
  specification gives no numbers, and they are those of ITU-T H.265, Table 7-1.
\<close>

definition avc_NALU_SPS :: nat where "avc_NALU_SPS = 7"
definition avc_NALU_PPS :: nat where "avc_NALU_PPS = 8"
definition hevc_NALU_VPS :: nat where "hevc_NALU_VPS = 32"
definition hevc_NALU_SPS :: nat where "hevc_NALU_SPS = 33"
definition hevc_NALU_PPS :: nat where "hevc_NALU_PPS = 34"

subsection \<open>Boxes\<close>

record FileType =
  ftyp_MajorBrand :: FourCC
  ftyp_MinorVersion :: "32 word"
  ftyp_CompatibleBrands :: "FourCC list"

record MovieHeader =
  mvhd_Version :: byte
  mvhd_Timescale :: "32 word"
  mvhd_Duration :: "64 word"
  mvhd_Rate :: "32 word"
  mvhd_Volume :: "16 word"
  mvhd_Matrix :: "32 word list"
  mvhd_NextTrackID :: "32 word"

record TrackExtends =
  trex_TrackID :: "32 word"
  trex_DefaultSampleDescrptionIndex :: "32 word"

record TrackHeader =
  tkhd_Version :: byte
  tkhd_Flags :: "32 word"
  tkhd_TrackID :: "32 word"
  tkhd_Duration :: "64 word"
  tkhd_Volume :: "16 word"
  tkhd_Matrix :: "32 word list"
  tkhd_Width :: "32 word"
  tkhd_Height :: "32 word"

record MediaHeader =
  mdhd_Version :: byte
  mdhd_Timescale :: "32 word"
  mdhd_Duration :: "64 word"
  mdhd_Language :: string

record Handler =
  hdlr_HandlerType :: FourCC
  hdlr_Name :: string

record VisualSampleEntry =
  vse_Type :: BoxType
  vse_DataReferenceIndex :: "16 word"
  vse_Width :: "16 word"
  vse_Height :: "16 word"
  vse_HorizResolution :: "32 word"
  vse_VertResolution :: "32 word"
  vse_FrameCount :: "16 word"
  vse_CompressorName :: string
  vse_Depth :: "16 word"

record SchemeType =
  schm_SchemeType :: FourCC
  schm_SchemeVersion :: "32 word"

record TrackEncryption =
  tenc_DefaultIsProtected :: byte
  tenc_DefaultPerSampleIVSize :: byte
  tenc_DefaultKID :: "byte list"

record ProtectionSystemSpecificHeader =
  pssh_SystemID :: "byte list"
  pssh_Data :: "byte list"

text \<open>
  The box types of the container package that the program builds, one constructor for
  each Go type. A container box holds its children in order. \<open>'h\<close> is the HEVC decoder
  configuration record of the codec package, which the program only passes on.
\<close>

datatype 'h box =
    FileTypeBox FileType
  | MovieBox "'h box list"
  | MovieHeaderBox MovieHeader
  | ProtectionSystemSpecificHeaderBox ProtectionSystemSpecificHeader
  | TrackExtendsBox TrackExtends
  | MovieExtendsBox "'h box list"
  | TrackHeaderBox TrackHeader
  | TrackBox "'h box list"
  | MediaHeaderBox MediaHeader
  | HandlerBox Handler
  | MediaBox "'h box list"
  | MediaInformationBox "'h box list"
  | SampleTableBox "'h box list"
  | TimeToSampleBox
  | SampleToChunkBox
  | ChunkOffsetBox
  | SampleSizeBox
  | SampleDescriptionBox "'h box list"
  | VisualSampleEntryBox VisualSampleEntry "'h box list"
  | ProtectionSchemeInfoBox "'h box list"
  | OriginalFormatBox FourCC
  | SchemeTypeBox SchemeType
  | SchemeInformationBox "'h box list"
  | TrackEncryptionBox TrackEncryption
  | AVCConfigurationBox AVCDecoderConfigurationRecord
  | HEVCConfigurationBox 'h
  | DataInformationBox "'h box list"
  | DataReferenceBox "'h box list"
  | DataEntryBox "32 word"
  | VideoMediaHeaderBox
  | SoundMediaHeaderBox

text \<open>The children of a box; a box that is no container has none.\<close>

fun children :: "'h box \<Rightarrow> 'h box list" where
  "children (MovieBox cs) = cs"
| "children (MovieExtendsBox cs) = cs"
| "children (TrackBox cs) = cs"
| "children (MediaBox cs) = cs"
| "children (MediaInformationBox cs) = cs"
| "children (SampleTableBox cs) = cs"
| "children (SampleDescriptionBox cs) = cs"
| "children (VisualSampleEntryBox v cs) = cs"
| "children (ProtectionSchemeInfoBox cs) = cs"
| "children (SchemeInformationBox cs) = cs"
| "children (DataInformationBox cs) = cs"
| "children (DataReferenceBox cs) = cs"
| "children b = []"

fun set_children :: "'h box \<Rightarrow> 'h box list \<Rightarrow> 'h box" where
  "set_children (MovieBox old) cs = MovieBox cs"
| "set_children (MovieExtendsBox old) cs = MovieExtendsBox cs"
| "set_children (TrackBox old) cs = TrackBox cs"
| "set_children (MediaBox old) cs = MediaBox cs"
| "set_children (MediaInformationBox old) cs = MediaInformationBox cs"
| "set_children (SampleTableBox old) cs = SampleTableBox cs"
| "set_children (SampleDescriptionBox old) cs = SampleDescriptionBox cs"
| "set_children (VisualSampleEntryBox v old) cs = VisualSampleEntryBox v cs"
| "set_children (ProtectionSchemeInfoBox old) cs = ProtectionSchemeInfoBox cs"
| "set_children (SchemeInformationBox old) cs = SchemeInformationBox cs"
| "set_children (DataInformationBox old) cs = DataInformationBox cs"
| "set_children (DataReferenceBox old) cs = DataReferenceBox cs"
| "set_children b cs = b"

subsection \<open>The external packages\<close>

text \<open>
  The codec and container packages are dependencies of the module, not part of it. What
  the program needs of them is a parameter of the model:
  \<^item> the classification of a NAL unit by its first byte, for AVC and for HEVC;
  \<^item> the construction of the HEVC decoder configuration record from the three lists of
    parameter sets and three flags, which may fail;
  \<^item> whether the assembly of a box from its children (\<^verbatim>\<open>Mp4BoxReplaceChildren\<close>,
    \<^verbatim>\<open>Mp4BoxAppend\<close>) is refused, and with which error.
\<close>

record 'h packages =
  avc_GetNaluType :: "byte \<Rightarrow> nat"
  hevc_GetNaluType :: "byte \<Rightarrow> nat"
  hevc_CreateHEVCDecoderConfigurationRecord ::
    "byte list list \<Rightarrow> byte list list \<Rightarrow> byte list list \<Rightarrow> bool \<Rightarrow> bool \<Rightarrow> bool \<Rightarrow> 'h result"
  mp4_refuses :: "'h box \<Rightarrow> 'h box list \<Rightarrow> error option"

text \<open>
  \<^verbatim>\<open>Mp4BoxReplaceChildren\<close>: unless the package refuses, the box holds exactly the given
  children afterwards. \<^verbatim>\<open>Mp4BoxAppend\<close> adds one child at the end.
\<close>

definition Mp4BoxReplaceChildren :: "'h packages \<Rightarrow> 'h box \<Rightarrow> 'h box list \<Rightarrow> 'h box result" where
  "Mp4BoxReplaceChildren pk b cs =
     (case mp4_refuses pk b cs of
        Some e \<Rightarrow> Inl (Error e)
      | None \<Rightarrow> Inr (set_children b cs))"

definition Mp4BoxAppend :: "'h packages \<Rightarrow> 'h box \<Rightarrow> 'h box \<Rightarrow> 'h box result" where
  "Mp4BoxAppend pk b c = Mp4BoxReplaceChildren pk b (children b @ [c])"

text \<open>
  The payload of a NAL unit: the bytes without the emulation prevention bytes, each a
  \<^verbatim>\<open>03\<close> that follows two zero bytes (ITU-T H.265, 7.3.1.1). \<open>zeros\<close> counts the zero
  bytes just read.
\<close>

fun rbsp :: "nat \<Rightarrow> byte list \<Rightarrow> byte list" where
  "rbsp zeros [] = []"
| "rbsp zeros (x # xs) =
     (if 2 \<le> zeros \<and> x = 3 then rbsp 0 xs
      else x # rbsp (if x = 0 then Suc zeros else 0) xs)"

text \<open>
  The part of a sequence parameter set that has a fixed length: the NAL unit header
  (2 bytes), the parameter set id, the number of sub-layers and the nesting flag
  (1 byte), and the general profile, tier and level (12 bytes).
\<close>

definition hevc_sps_fixed_length :: nat where
  "hevc_sps_fixed_length = 15"

text \<open>
  The instance used to run the model: NAL unit types as ITU-T H.264 and H.265 define them
  (the low five bits of the first byte; bits 1 to 6 of the first byte), and a container
  package that accepts every assembly. The builder of the HEVC record reads the first
  sequence parameter set, \<^verbatim>\<open>spsNalus[0]\<close>: a payload that ends inside the part of fixed
  length ends the read with the error \<^verbatim>\<open>EOF\<close>; otherwise the record is built, and
  it is represented by the parameter sets it was built from. The instance is run only on
  parameter sets that are complete, or that end inside that part.
\<close>

definition h26x :: "(byte list list \<times> byte list list \<times> byte list list) packages" where
  "h26x = \<lparr>
     avc_GetNaluType = (\<lambda>b. unat (b AND 0x1F)),
     hevc_GetNaluType = (\<lambda>b. unat (drop_bit 1 b AND 0x3F)),
     hevc_CreateHEVCDecoderConfigurationRecord =
       (\<lambda>vpsNalus spsNalus ppsNalus vpsComplete spsComplete ppsComplete.
          case index spsNalus 0 of
            Inl f \<Rightarrow> Inl f
          | Inr sps \<Rightarrow>
              if length (rbsp 0 sps) < hevc_sps_fixed_length
              then Inl (Error (Errorf ''EOF'' None))
              else Inr (vpsNalus, spsNalus, ppsNalus)),
     mp4_refuses = (\<lambda>b cs. None) \<rparr>"

subsection \<open>\<^verbatim>\<open>MoovProcessor\<close>\<close>

type_synonym StreamType = string

definition VideoStream :: StreamType where "VideoStream = ''video''"
definition AudioStream :: StreamType where "AudioStream = ''audio''"
definition TextStream :: StreamType where "TextStream = ''text''"

record MoovProcessor =
  TrackID :: "32 word"
  Codec :: FourCC
  Width :: "32 word"
  Height :: "32 word"
  Duration :: "64 word"
  Timescale :: "64 word"
  Language :: string
  CodecPrivateData :: "byte list"
  StreamType :: StreamType
  StreamName :: string
  Protected :: bool
  KID :: "byte list"
  SystemID :: "byte list"
  ProtectionInitData :: "byte list"

subsection \<open>\<^verbatim>\<open>CreateAvcCMp4Box\<close> and \<^verbatim>\<open>CreateHvcCMp4Box\<close>\<close>

text \<open>
  The loop over \<^verbatim>\<open>nalus[1:]\<close> of \<^verbatim>\<open>CreateAvcCMp4Box\<close>: \<^verbatim>\<open>nalu[0]\<close> is read first, with
  no check that the segment has a byte.
\<close>

fun avc_collect :: "'h packages \<Rightarrow> byte list list \<Rightarrow> byte list list \<Rightarrow> byte list list
    \<Rightarrow> (byte list list \<times> byte list list) result" where
  "avc_collect pk [] sps pps = Inr (sps, pps)"
| "avc_collect pk (nalu # rest) sps pps =
     (case index nalu 0 of
        Inl f \<Rightarrow> Inl f
      | Inr b \<Rightarrow>
          (let naluType = avc_GetNaluType pk b in
           if naluType = avc_NALU_SPS then avc_collect pk rest (sps @ [nalu]) pps
           else if naluType = avc_NALU_PPS then avc_collect pk rest sps (pps @ [nalu])
           else avc_collect pk rest sps pps))"

text \<open>The reads of \<^verbatim>\<open>sps[0].NALUnit[1]\<close>, \<^verbatim>\<open>[2]\<close> and \<^verbatim>\<open>[3]\<close>, in this order.\<close>

definition avc_profile :: "byte list list \<Rightarrow> (byte \<times> byte \<times> byte) result" where
  "avc_profile sps =
     (if length sps > 0 then
        (case index (sps ! 0) 1 of Inl f \<Rightarrow> Inl f | Inr avcProfile \<Rightarrow>
        (case index (sps ! 0) 2 of Inl f \<Rightarrow> Inl f | Inr avcProfileCompatibility \<Rightarrow>
        (case index (sps ! 0) 3 of Inl f \<Rightarrow> Inl f | Inr avcLevel \<Rightarrow>
           Inr (avcProfile, avcProfileCompatibility, avcLevel))))
      else Inr (0, 0, 0))"

definition CreateAvcCMp4Box :: "'h packages \<Rightarrow> MoovProcessor \<Rightarrow> 'h box result" where
  "CreateAvcCMp4Box pk p =
     (let nalus = bytes_Split (CodecPrivateData p) start_code in
      if length nalus < 1
      then Inl (Error (Errorf (''invalid CodecPrivateData for avcC: '' @ sentinel_text ErrInvalidParam)
                              (Some ErrInvalidParam)))
      else
        case avc_collect pk (drop 1 nalus) [] [] of
          Inl f \<Rightarrow> Inl f
        | Inr (sps, pps) \<Rightarrow>
            (case avc_profile sps of
               Inl f \<Rightarrow> Inl f
             | Inr (avcProfile, avcProfileCompatibility, avcLevel) \<Rightarrow>
                 Inr (AVCConfigurationBox \<lparr>
                   ConfigurationVersion = 1,
                   AVCProfileIndication = avcProfile,
                   ProfileCompatibility = avcProfileCompatibility,
                   AVCLevelIndication = avcLevel,
                   LengthSizeMinusOne = 3,
                   SequenceParameterSets = sps,
                   PictureParameterSets = pps \<rparr>)))"

fun hevc_collect :: "'h packages \<Rightarrow> byte list list \<Rightarrow> byte list list \<Rightarrow> byte list list
    \<Rightarrow> byte list list \<Rightarrow> (byte list list \<times> byte list list \<times> byte list list) result" where
  "hevc_collect pk [] vpsNalus spsNalus ppsNalus = Inr (vpsNalus, spsNalus, ppsNalus)"
| "hevc_collect pk (nalu # rest) vpsNalus spsNalus ppsNalus =
     (case index nalu 0 of
        Inl f \<Rightarrow> Inl f
      | Inr b \<Rightarrow>
          (let naluType = hevc_GetNaluType pk b in
           if naluType = hevc_NALU_VPS then hevc_collect pk rest (vpsNalus @ [nalu]) spsNalus ppsNalus
           else if naluType = hevc_NALU_SPS then hevc_collect pk rest vpsNalus (spsNalus @ [nalu]) ppsNalus
           else if naluType = hevc_NALU_PPS then hevc_collect pk rest vpsNalus spsNalus (ppsNalus @ [nalu])
           else hevc_collect pk rest vpsNalus spsNalus ppsNalus))"

definition CreateHvcCMp4Box :: "'h packages \<Rightarrow> MoovProcessor \<Rightarrow> 'h box result" where
  "CreateHvcCMp4Box pk p =
     (let nalus = bytes_Split (CodecPrivateData p) start_code in
      if length nalus < 1
      then Inl (Error (Errorf (''invalid CodecPrivateData for hvcC: '' @ sentinel_text ErrInvalidParam)
                              (Some ErrInvalidParam)))
      else
        case hevc_collect pk (drop 1 nalus) [] [] [] of
          Inl f \<Rightarrow> Inl f
        | Inr (vpsNalus, spsNalus, ppsNalus) \<Rightarrow>
            if length spsNalus = 0
            then Inl (Error (Errorf ''cannot find hevc sps nalu'' None))
            else
              (case hevc_CreateHEVCDecoderConfigurationRecord pk vpsNalus spsNalus ppsNalus True True True of
                 Inl f \<Rightarrow> Inl f
               | Inr conf \<Rightarrow> Inr (HEVCConfigurationBox conf)))"

subsection \<open>The box tree of the initialisation segment\<close>

text \<open>
  Each builder returns the box or the first failure met, in the order of the source: a
  Go function that returns with \<^verbatim>\<open>err != nil\<close> is \<open>Inl\<close>, whatever it had assigned to
  its box result by then. \<^verbatim>\<open>Mp4BoxUpdate\<close> recomputes the sizes in the box headers, which
  are not part of this model.
\<close>

text \<open>
  The flag values of the container package are those of ISO/IEC 14496-12; no property
  below depends on them.
\<close>

definition FLAG_TKHD_TRACK_ENABLED :: "32 word" where "FLAG_TKHD_TRACK_ENABLED = 0x000001"
definition FLAG_TKHD_TRACK_IN_MOVIE :: "32 word" where "FLAG_TKHD_TRACK_IN_MOVIE = 0x000002"
definition FLAG_TKHD_TRACK_IN_PREVIEW :: "32 word" where "FLAG_TKHD_TRACK_IN_PREVIEW = 0x000004"
definition FLAG_DREF_SAME_FILE :: "32 word" where "FLAG_DREF_SAME_FILE = 0x000001"

definition unity_matrix :: "32 word list" where
  "unity_matrix = [0x00010000, 0, 0, 0, 0x00010000, 0, 0, 0, 0x40000000]"

definition CreateFtypMp4Box :: "MoovProcessor \<Rightarrow> 'h box result" where
  "CreateFtypMp4Box p =
     Inr (FileTypeBox \<lparr>
       ftyp_MajorBrand = Iso6FourCC,
       ftyp_MinorVersion = 1,
       ftyp_CompatibleBrands = [IsomFourCC, Iso6FourCC, MsdhFourCC] \<rparr>)"

definition CreateMvhdMp4Box :: "MoovProcessor \<Rightarrow> 'h box result" where
  "CreateMvhdMp4Box p =
     Inr (MovieHeaderBox \<lparr>
       mvhd_Version = 1,
       mvhd_Timescale = ucast (Timescale p),
       mvhd_Duration = Duration p * Timescale p,
       mvhd_Rate = 0x00010000,
       mvhd_Volume = 0x0100,
       mvhd_Matrix = unity_matrix,
       mvhd_NextTrackID = TrackID p + 1 \<rparr>)"

definition CreatePsshMp4Box :: "MoovProcessor \<Rightarrow> 'h box result" where
  "CreatePsshMp4Box p =
     Inr (ProtectionSystemSpecificHeaderBox \<lparr>
       pssh_SystemID = SystemID p,
       pssh_Data = ProtectionInitData p \<rparr>)"

definition CreateMvexMp4Box :: "'h packages \<Rightarrow> MoovProcessor \<Rightarrow> 'h box result" where
  "CreateMvexMp4Box pk p =
     (let trex = TrackExtendsBox \<lparr> trex_TrackID = TrackID p, trex_DefaultSampleDescrptionIndex = 1 \<rparr>
      in Mp4BoxReplaceChildren pk (MovieExtendsBox []) [trex])"

definition CreateDrefMp4Box :: "'h packages \<Rightarrow> MoovProcessor \<Rightarrow> 'h box result" where
  "CreateDrefMp4Box pk p =
     (let url = DataEntryBox FLAG_DREF_SAME_FILE
      in Mp4BoxAppend pk (DataReferenceBox []) url)"

definition CreateDinfMp4Box :: "'h packages \<Rightarrow> MoovProcessor \<Rightarrow> 'h box result" where
  "CreateDinfMp4Box pk p =
     (case CreateDrefMp4Box pk p of
        Inl f \<Rightarrow> Inl f
      | Inr dref \<Rightarrow> Mp4BoxReplaceChildren pk (DataInformationBox []) [dref])"

text \<open>\<^verbatim>\<open>CreateMhdMp4Box\<close>: no box (\<^verbatim>\<open>nil\<close>) unless the stream is video or audio.\<close>

definition CreateMhdMp4Box :: "MoovProcessor \<Rightarrow> 'h box option result" where
  "CreateMhdMp4Box p =
     (if StreamType p = VideoStream then Inr (Some VideoMediaHeaderBox)
      else if StreamType p = AudioStream then Inr (Some SoundMediaHeaderBox)
      else Inr None)"

definition CreateSchiMp4Box :: "'h packages \<Rightarrow> MoovProcessor \<Rightarrow> 'h box result" where
  "CreateSchiMp4Box pk p =
     (let tenc = TrackEncryptionBox \<lparr>
            tenc_DefaultIsProtected = 1,
            tenc_DefaultPerSampleIVSize = 8,
            tenc_DefaultKID = KID p \<rparr>
      in Mp4BoxReplaceChildren pk (SchemeInformationBox []) [tenc])"

definition CreateSinfMp4Box :: "'h packages \<Rightarrow> MoovProcessor \<Rightarrow> 'h box result" where
  "CreateSinfMp4Box pk p =
     (let frmt = OriginalFormatBox (Codec p);
          schm = SchemeTypeBox \<lparr> schm_SchemeType = CencFourCC, schm_SchemeVersion = 0x00010000 \<rparr>
      in case CreateSchiMp4Box pk p of
           Inl f \<Rightarrow> Inl f
         | Inr schi \<Rightarrow> Mp4BoxReplaceChildren pk (ProtectionSchemeInfoBox []) [frmt, schm, schi])"

definition CreateHvc1Mp4Box :: "'h packages \<Rightarrow> MoovProcessor \<Rightarrow> 'h box result" where
  "CreateHvc1Mp4Box pk p =
     (let hvc1 = \<lparr>
            vse_Type = Codec p,
            vse_DataReferenceIndex = 1,
            vse_Width = ucast (Width p),
            vse_Height = ucast (Height p),
            vse_HorizResolution = 72,
            vse_VertResolution = 72,
            vse_FrameCount = 1,
            vse_CompressorName = ''HEVC Coding'',
            vse_Depth = 0x0018 \<rparr>
      in case CreateHvcCMp4Box pk p of
           Inl f \<Rightarrow> Inl f
         | Inr hvcC \<Rightarrow>
             (if Protected p then
                (case CreateSinfMp4Box pk p of
                   Inl f \<Rightarrow> Inl f
                 | Inr sinf \<Rightarrow>
                     Mp4BoxReplaceChildren pk
                       (VisualSampleEntryBox (hvc1\<lparr>vse_Type := EncvBoxType\<rparr>) []) ([hvcC] @ [sinf]))
              else Mp4BoxReplaceChildren pk (VisualSampleEntryBox hvc1 []) [hvcC]))"

definition CreateAvc1Mp4Box :: "'h packages \<Rightarrow> MoovProcessor \<Rightarrow> 'h box result" where
  "CreateAvc1Mp4Box pk p =
     (let avc1 = \<lparr>
            vse_Type = Avc1FourCC,
            vse_DataReferenceIndex = 1,
            vse_Width = ucast (Width p),
            vse_Height = ucast (Height p),
            vse_HorizResolution = 72,
            vse_VertResolution = 72,
            vse_FrameCount = 1,
            vse_CompressorName = ''AVC Coding'',
            vse_Depth = 0x0018 \<rparr>
      in case CreateAvcCMp4Box pk p of
           Inl f \<Rightarrow> Inl f
         | Inr avcC \<Rightarrow>
             (if Protected p then
                (case CreateSinfMp4Box pk p of
                   Inl f \<Rightarrow> Inl f
                 | Inr sinf \<Rightarrow>
                     Mp4BoxReplaceChildren pk
                       (VisualSampleEntryBox (avc1\<lparr>vse_Type := EncvBoxType\<rparr>) []) ([avcC] @ [sinf]))
              else Mp4BoxReplaceChildren pk (VisualSampleEntryBox avc1 []) [avcC]))"

text \<open>
  The steps that \<^verbatim>\<open>CreateAvc1Mp4Box\<close> and \<^verbatim>\<open>CreateHvc1Mp4Box\<close> share word for word once
  the configuration box is built, as a function of the entry and of that box; the proofs
  reason about both builders through it.
\<close>

definition finish_sample_entry ::
    "'h packages \<Rightarrow> MoovProcessor \<Rightarrow> VisualSampleEntry \<Rightarrow> 'h box \<Rightarrow> 'h box result" where
  "finish_sample_entry pk p entry conf =
     (if Protected p then
        (case CreateSinfMp4Box pk p of
           Inl f \<Rightarrow> Inl f
         | Inr sinf \<Rightarrow>
             Mp4BoxReplaceChildren pk
               (VisualSampleEntryBox (entry\<lparr>vse_Type := EncvBoxType\<rparr>) []) ([conf] @ [sinf]))
      else Mp4BoxReplaceChildren pk (VisualSampleEntryBox entry []) [conf])"

text \<open>
  \<^verbatim>\<open>fmt.Errorf("codec %s not supported: %w", p.Codec, ErrUnknownCodec)\<close> in the default
  branch of the switch.
\<close>

definition CreateSampleEntryMp4Box :: "'h packages \<Rightarrow> MoovProcessor \<Rightarrow> 'h box result" where
  "CreateSampleEntryMp4Box pk p =
     (if Codec p = Avc1FourCC then CreateAvc1Mp4Box pk p
      else if Codec p = Hvc1FourCC \<or> Codec p = Hev1FourCC then CreateHvc1Mp4Box pk p
      else Inl (Error (Errorf (''codec '' @ Codec p @ '' not supported: '' @ sentinel_text ErrUnknownCodec)
                              (Some ErrUnknownCodec))))"

definition CreateStsdMp4Box :: "'h packages \<Rightarrow> MoovProcessor \<Rightarrow> 'h box result" where
  "CreateStsdMp4Box pk p =
     (case CreateSampleEntryMp4Box pk p of
        Inl f \<Rightarrow> Inl f
      | Inr sampleEntry \<Rightarrow> Mp4BoxReplaceChildren pk (SampleDescriptionBox []) [sampleEntry])"

definition CreateStblMp4Box :: "'h packages \<Rightarrow> MoovProcessor \<Rightarrow> 'h box result" where
  "CreateStblMp4Box pk p =
     (case CreateStsdMp4Box pk p of
        Inl f \<Rightarrow> Inl f
      | Inr stsd \<Rightarrow>
          Mp4BoxReplaceChildren pk (SampleTableBox [])
            [stsd, TimeToSampleBox, SampleToChunkBox, ChunkOffsetBox, SampleSizeBox])"

definition CreateMinfMp4Box :: "'h packages \<Rightarrow> MoovProcessor \<Rightarrow> 'h box result" where
  "CreateMinfMp4Box pk p =
     (case CreateMhdMp4Box p of
        Inl f \<Rightarrow> Inl f
      | Inr mhd \<Rightarrow>
     (case CreateDinfMp4Box pk p of
        Inl f \<Rightarrow> Inl f
      | Inr dinf \<Rightarrow>
     (case CreateStblMp4Box pk p of
        Inl f \<Rightarrow> Inl f
      | Inr stbl \<Rightarrow>
          (let childred = (case mhd of Some m \<Rightarrow> [m] @ [dinf, stbl] | None \<Rightarrow> [dinf, stbl])
           in Mp4BoxReplaceChildren pk (MediaInformationBox []) childred))))"

definition CreateMdiaMp4Box :: "'h packages \<Rightarrow> MoovProcessor \<Rightarrow> 'h box result" where
  "CreateMdiaMp4Box pk p =
     (let mdhd = MediaHeaderBox \<lparr>
            mdhd_Version = 1,
            mdhd_Timescale = ucast (Timescale p),
            mdhd_Duration = Duration p * Timescale p,
            mdhd_Language = Language p \<rparr>;
          hdlr = HandlerBox \<lparr>
            hdlr_HandlerType =
              (if StreamType p = VideoStream then VideFourCC
               else if StreamType p = AudioStream then SounFourCC
               else MetaFourCC),
            hdlr_Name = StreamName p \<rparr>
      in case CreateMinfMp4Box pk p of
           Inl f \<Rightarrow> Inl f
         | Inr minf \<Rightarrow> Mp4BoxReplaceChildren pk (MediaBox []) [mdhd, hdlr, minf])"

definition CreateTrakMp4Box :: "'h packages \<Rightarrow> MoovProcessor \<Rightarrow> 'h box result" where
  "CreateTrakMp4Box pk p =
     (let tkhd = TrackHeaderBox \<lparr>
            tkhd_Version = 1,
            tkhd_Flags = FLAG_TKHD_TRACK_ENABLED OR FLAG_TKHD_TRACK_IN_MOVIE OR FLAG_TKHD_TRACK_IN_PREVIEW,
            tkhd_TrackID = TrackID p,
            tkhd_Duration = Duration p * Timescale p,
            tkhd_Volume = 0x0100,
            tkhd_Matrix = unity_matrix,
            tkhd_Width = Width p,
            tkhd_Height = Height p \<rparr>
      in case CreateMdiaMp4Box pk p of
           Inl f \<Rightarrow> Inl f
         | Inr mdia \<Rightarrow> Mp4BoxReplaceChildren pk (TrackBox []) [tkhd, mdia])"

definition CreateMoovMp4Box :: "'h packages \<Rightarrow> MoovProcessor \<Rightarrow> 'h box result" where
  "CreateMoovMp4Box pk p =
     (case CreateMvhdMp4Box p of
        Inl f \<Rightarrow> Inl f
      | Inr mvhd \<Rightarrow>
     (case CreateTrakMp4Box pk p of
        Inl f \<Rightarrow> Inl f
      | Inr trak \<Rightarrow>
     (case CreateMvexMp4Box pk p of
        Inl f \<Rightarrow> Inl f
      | Inr mvex \<Rightarrow>
          (if Protected p then
             (case CreatePsshMp4Box p of
                Inl f \<Rightarrow> Inl f
              | Inr pssh \<Rightarrow> Mp4BoxReplaceChildren pk (MovieBox []) ([mvhd, trak, mvex] @ [pssh]))
           else Mp4BoxReplaceChildren pk (MovieBox []) [mvhd, trak, mvex]))))"

definition CreateInitMp4Box :: "'h packages \<Rightarrow> MoovProcessor \<Rightarrow> ('h box \<times> 'h box) result" where
  "CreateInitMp4Box pk p =
     (case CreateFtypMp4Box p of
        Inl f \<Rightarrow> Inl f
      | Inr ftyp \<Rightarrow>
          (case CreateMoovMp4Box pk p of
             Inl f \<Rightarrow> Inl f
           | Inr moov \<Rightarrow> Inr (ftyp, moov)))"

subsection \<open>Fragment groups and the resolved timeline\<close>

text \<open>The manifest's \<^verbatim>\<open>TrackFragment\<close> and \<^verbatim>\<open>StreamFragment\<close> elements, as declared.\<close>

record TrackFragment =
  tf_Index :: "32 word"
  tf_ManifestOutputSample :: "byte list"

record StreamFragment =
  frag_Number :: "32 word option"
  frag_Duration :: "64 word option"
  frag_Time :: "64 word option"
  frag_Repeat :: "64 word option"
  frag_TrackFragments :: "TrackFragment list"

datatype timeline_error = MalformedTimeline | NonContiguousTimeline

record ResolvedFragment =
  startTimeTicks :: nat
  durationTicks :: nat
  sequenceIndex :: nat

text \<open>
  Modelled from the spec: the timeline resolver. The source declares the fragment group
  (\<^verbatim>\<open>StreamFragment\<close>) and documents how a client infers the values left out, but holds no
  function that resolves a timeline; the definitions below follow section 4.1 of the
  specification step by step, on ticks as natural numbers.
  \<^item> The base start time of a group is its explicit time, else the running edge
    \<open>prevEndTicks\<close> (0 at the first group). An explicit time below the running edge is
    \<open>NonContiguousTimeline\<close> unless the caller tolerates it.
  \<^item> The duration is the explicit one; else the next group's explicit start time minus
    this group's start; else, at the last group, the presentation duration minus this
    group's start. A group that is not last, without a duration, whose successor has no
    explicit start is \<open>MalformedTimeline\<close>. Where a difference would be negative the
    specification gives no value: the model reports \<open>NonContiguousTimeline\<close> for a
    successor that starts earlier and \<open>MalformedTimeline\<close> for a presentation that ends
    earlier.
  \<^item> A group is expanded into \<open>repeatCount\<close> entries (default 1) of the same duration,
    the \<open>k\<close>-th starting at \<open>start + k * duration\<close>; the running edge moves to the end of
    the last entry emitted.
  \<^item> The sequence index is the position in the expanded output, from 0.
\<close>

definition repeatCount :: "StreamFragment \<Rightarrow> nat" where
  "repeatCount g = (case frag_Repeat g of None \<Rightarrow> 1 | Some r \<Rightarrow> unat r)"

definition expand :: "nat \<Rightarrow> nat \<Rightarrow> nat \<Rightarrow> (nat \<times> nat) list" where
  "expand start d r = map (\<lambda>k. (start + k * d, d)) [0..<r]"

definition resolve_start :: "bool \<Rightarrow> nat \<Rightarrow> StreamFragment \<Rightarrow> timeline_error + nat" where
  "resolve_start tolerated prevEndTicks g =
     (case frag_Time g of
        None \<Rightarrow> Inr prevEndTicks
      | Some t \<Rightarrow>
          if unat t < prevEndTicks \<and> \<not> tolerated then Inl NonContiguousTimeline
          else Inr (unat t))"

definition resolve_duration ::
    "nat \<Rightarrow> nat \<Rightarrow> StreamFragment \<Rightarrow> StreamFragment list \<Rightarrow> timeline_error + nat" where
  "resolve_duration presentationDurationTicks start g rest =
     (case frag_Duration g of
        Some d \<Rightarrow> Inr (unat d)
      | None \<Rightarrow>
          (case rest of
             [] \<Rightarrow>
               if presentationDurationTicks < start then Inl MalformedTimeline
               else Inr (presentationDurationTicks - start)
           | next # later \<Rightarrow>
               (case frag_Time next of
                  None \<Rightarrow> Inl MalformedTimeline
                | Some t \<Rightarrow>
                    if unat t < start then Inl NonContiguousTimeline
                    else Inr (unat t - start))))"

fun resolve_groups ::
    "nat \<Rightarrow> bool \<Rightarrow> nat \<Rightarrow> StreamFragment list \<Rightarrow> timeline_error + (nat \<times> nat) list list" where
  "resolve_groups presentationDurationTicks tolerated prevEndTicks [] = Inr []"
| "resolve_groups presentationDurationTicks tolerated prevEndTicks (g # rest) =
     (case resolve_start tolerated prevEndTicks g of
        Inl e \<Rightarrow> Inl e
      | Inr start \<Rightarrow>
     (case resolve_duration presentationDurationTicks start g rest of
        Inl e \<Rightarrow> Inl e
      | Inr d \<Rightarrow>
          (let r = repeatCount g;
               edge = (if r = 0 then prevEndTicks else start + r * d)
           in case resolve_groups presentationDurationTicks tolerated edge rest of
                Inl e \<Rightarrow> Inl e
              | Inr blocks \<Rightarrow> Inr (expand start d r # blocks))))"

fun number_from :: "nat \<Rightarrow> (nat \<times> nat) list \<Rightarrow> ResolvedFragment list" where
  "number_from i [] = []"
| "number_from i ((s, d) # xs) =
     \<lparr> startTimeTicks = s, durationTicks = d, sequenceIndex = i \<rparr> # number_from (Suc i) xs"

definition ResolveTimeline ::
    "nat \<Rightarrow> bool \<Rightarrow> StreamFragment list \<Rightarrow> timeline_error + ResolvedFragment list" where
  "ResolveTimeline presentationDurationTicks tolerated groups =
     (case resolve_groups presentationDurationTicks tolerated 0 groups of
        Inl e \<Rightarrow> Inl e
      | Inr blocks \<Rightarrow> Inr (number_from 0 (concat blocks)))"

subsection \<open>Example inputs\<close>

text \<open>
  AVC private data as the manifest format prescribes it, a start code before the sequence
  parameter set and one before the picture parameter set, and a track that carries it.
  HEVC private data with the video, sequence and picture parameter set of a stream of
  1920 by 1080 pixels in the Main profile at level 4: each set is complete, down to its
  trailing bits.
\<close>

definition avc_private_data :: "byte list" where
  "avc_private_data =
     [0, 0, 0, 1, 0x67, 0x42, 0x00, 0x1F, 0xE9,
      0, 0, 0, 1, 0x68, 0xCE, 0x38, 0x80]"

definition hevc_vps :: "byte list" where
  "hevc_vps =
     [0x40, 0x01, 0x0C, 0x01, 0xFF, 0xFF, 0x01, 0x60, 0x00, 0x00, 0x03, 0x00,
      0x90, 0x00, 0x00, 0x03, 0x00, 0x00, 0x03, 0x00, 0x78, 0x95, 0x98, 0x09]"

definition hevc_sps :: "byte list" where
  "hevc_sps =
     [0x42, 0x01, 0x01, 0x01, 0x60, 0x00, 0x00, 0x03, 0x00, 0x90, 0x00, 0x00,
      0x03, 0x00, 0x00, 0x03, 0x00, 0x78, 0xA0, 0x03, 0xC0, 0x80, 0x10, 0xE5,
      0x96, 0x56, 0x69, 0x24, 0xCA, 0xE0, 0x10, 0x00, 0x00, 0x03, 0x00, 0x10,
      0x00, 0x00, 0x03, 0x01, 0xE0, 0x80]"

definition hevc_pps :: "byte list" where
  "hevc_pps = [0x44, 0x01, 0xC1, 0x72, 0xB4, 0x62, 0x40]"

definition hevc_private_data :: "byte list" where
  "hevc_private_data =
     [0, 0, 0, 1] @ hevc_vps @ [0, 0, 0, 1] @ hevc_sps @ [0, 0, 0, 1] @ hevc_pps"

definition avc_track :: MoovProcessor where
  "avc_track = \<lparr>
     TrackID = 1, Codec = Avc1FourCC, Width = 1280, Height = 720,
     Duration = 60, Timescale = 10000000, Language = ''und'',
     CodecPrivateData = avc_private_data,
     StreamType = VideoStream, StreamName = ''video'', Protected = False,
     KID = [1, 2, 3, 4, 5, 6, 7, 8, 9, 10, 11, 12, 13, 14, 15, 16],
     SystemID = [0x9A, 0x04, 0xF0, 0x79, 0x98, 0x40, 0x42, 0x86,
                 0xAB, 0x92, 0xE6, 0x5B, 0xE0, 0x88, 0x5F, 0x95],
     ProtectionInitData = [] \<rparr>"

text \<open>
  The same track with the second HEVC code, the HEVC data and its picture size; as a text
  stream; with a timescale of \<open>2^32 + 10000000\<close>. The fragment group of the repeat example: start 0,
  duration 500, repeated 3 times.
\<close>

definition hevc_track :: MoovProcessor where
  "hevc_track = avc_track\<lparr>Codec := Hev1FourCC, Width := 1920, Height := 1080,
     CodecPrivateData := hevc_private_data\<rparr>"

definition text_track :: MoovProcessor where
  "text_track = avc_track\<lparr>StreamType := TextStream\<rparr>"

definition long_timescale_track :: MoovProcessor where
  "long_timescale_track = avc_track\<lparr>Timescale := 4304967296\<rparr>"

definition repeat_group :: StreamFragment where
  "repeat_group = \<lparr> frag_Number = None, frag_Duration = Some 500, frag_Time = Some 0,
     frag_Repeat = Some 3, frag_TrackFragments = [] \<rparr>"

section \<open>Properties\<close>

subsection \<open>Splitting and the loops over the NAL units\<close>

lemma split_from_not_Nil: "split_from sep cur s \<noteq> []"
  by (induction sep cur s rule: split_from.induct) auto

lemma bytes_Split_not_Nil: "bytes_Split s sep \<noteq> []"
  by (simp add: bytes_Split_def split_from_not_Nil)

lemma split_avc_private_data:
  "bytes_Split avc_private_data start_code =
     [[], [0x67, 0x42, 0x00, 0x1F, 0xE9], [0x68, 0xCE, 0x38, 0x80]]"
  by (simp add: bytes_Split_def avc_private_data_def start_code_def)

lemma split_hevc_private_data:
  "bytes_Split hevc_private_data start_code = [[], hevc_vps, hevc_sps, hevc_pps]"
  by (simp add: bytes_Split_def hevc_private_data_def hevc_vps_def hevc_sps_def hevc_pps_def
      start_code_def)

text \<open>
  A start code that ends the input, or that another start code follows at once, leaves an
  empty segment behind the first one. The start code has no proper prefix that is also a
  suffix, so an occurrence found from the left never hides a later one.
\<close>

lemma split_from_marker:
  "s = pre @ start_code @ rest \<Longrightarrow> rest = [] \<or> take 4 rest = start_code \<Longrightarrow>
   [] \<in> set (tl (split_from start_code cur s))"
proof (induction start_code cur s arbitrary: pre rule: split_from.induct)
  case (1 cur)
  then show ?case by (simp add: start_code_def)
next
  case (2 cur x xs)
  show ?case
  proof (cases "take (length start_code) (x # xs) = start_code")
    case True
    then obtain ys where xs: "x # xs = 0 # 0 # 0 # 1 # ys"
      by (cases xs; cases "tl xs"; cases "tl (tl xs)") (auto simp: start_code_def)
    then have dr: "drop (length start_code - 1) xs = ys"
      by (auto simp: start_code_def)
    have step: "tl (split_from start_code cur (x # xs)) = split_from start_code [] ys"
      using True dr by simp
    have "[] \<in> set (split_from start_code [] ys)"
    proof (cases "length pre < 4")
      case short: True
      then consider "pre = []" | a where "pre = [a]" | a b where "pre = [a, b]"
        | a b c where "pre = [a, b, c]"
        by (cases pre; cases "tl pre"; cases "tl (tl pre)"; cases "tl (tl (tl pre))") auto
      then show ?thesis
      proof cases
        case 1
        then have "ys = rest" using "2.prems"(1) xs by (simp add: start_code_def)
        show ?thesis
        proof (cases "rest = []")
          case True
          then show ?thesis using \<open>ys = rest\<close> by simp
        next
          case False
          then have "take 4 rest = start_code" using "2.prems"(2) by simp
          moreover have "rest = take 4 rest @ drop 4 rest" by simp
          ultimately have "rest = start_code @ drop 4 rest" by simp
          then obtain r where "rest = 0 # 0 # 0 # 1 # r" by (simp add: start_code_def)
          then have "split_from start_code [] ys = [] # split_from start_code [] r"
            using \<open>ys = rest\<close> by (simp add: start_code_def)
          then show ?thesis by simp
        qed
      next
        case 2 then show ?thesis using "2.prems"(1) xs by (simp add: start_code_def)
      next
        case 3 then show ?thesis using "2.prems"(1) xs by (simp add: start_code_def)
      next
        case 4 then show ?thesis using "2.prems"(1) xs by (simp add: start_code_def)
      qed
    next
      case False
      then obtain a b c d pre' where pre: "pre = a # b # c # d # pre'"
        by (cases pre; cases "tl pre"; cases "tl (tl pre)"; cases "tl (tl (tl pre))") auto
      then have "ys = pre' @ start_code @ rest" using "2.prems"(1) xs by simp
      then have "[] \<in> set (tl (split_from start_code [] ys))"
        using "2.hyps"(1) [OF True, of pre'] "2.prems"(2) dr by simp
      then show ?thesis
        by (metis list.sel(2) list.set_sel(2))
    qed
    then show ?thesis using step by simp
  next
    case False
    then have "pre \<noteq> []" using "2.prems"(1) by (auto simp: start_code_def)
    then obtain pre' where pre: "pre = x # pre'" and xs: "xs = pre' @ start_code @ rest"
      using "2.prems"(1) by (cases pre) auto
    have "[] \<in> set (tl (split_from start_code (cur @ [x]) xs))"
      using "2.hyps"(2) [OF False xs] "2.prems"(2) by simp
    then show ?thesis using False by simp
  qed
qed

lemma avc_collect_panic:
  "[] \<in> set segs \<Longrightarrow> avc_collect pk segs sps pps = Inl (Panic (IndexOutOfRange 0 0))"
  by (induction pk segs sps pps rule: avc_collect.induct) (auto simp: index_def Let_def)

lemma avc_collect_ok:
  "[] \<notin> set segs \<Longrightarrow>
   avc_collect pk segs sps pps =
     Inr (sps @ filter (\<lambda>n. avc_GetNaluType pk (hd n) = 7) segs,
          pps @ filter (\<lambda>n. avc_GetNaluType pk (hd n) = 8) segs)"
  by (induction pk segs sps pps rule: avc_collect.induct)
     (auto simp: index_def Let_def avc_NALU_SPS_def avc_NALU_PPS_def hd_conv_nth)

lemma avc_collect_no_error: "avc_collect pk segs sps pps \<noteq> Inl (Error e)"
  by (induction pk segs sps pps rule: avc_collect.induct) (auto simp: index_def Let_def)

lemma avc_profile_no_error: "avc_profile sps \<noteq> Inl (Error e)"
  by (auto simp: avc_profile_def index_def split: sum.splits)

lemma hevc_collect_panic:
  "[] \<in> set segs \<Longrightarrow> hevc_collect pk segs v s pp = Inl (Panic (IndexOutOfRange 0 0))"
  by (induction pk segs v s pp rule: hevc_collect.induct) (auto simp: index_def Let_def)

lemma hevc_collect_ok:
  "[] \<notin> set segs \<Longrightarrow>
   hevc_collect pk segs v s pp =
     Inr (v @ filter (\<lambda>n. hevc_GetNaluType pk (hd n) = 32) segs,
          s @ filter (\<lambda>n. hevc_GetNaluType pk (hd n) = 33) segs,
          pp @ filter (\<lambda>n. hevc_GetNaluType pk (hd n) = 34) segs)"
  by (induction pk segs v s pp rule: hevc_collect.induct)
     (auto simp: index_def Let_def hevc_NALU_VPS_def hevc_NALU_SPS_def hevc_NALU_PPS_def hd_conv_nth)

subsection \<open>The AVC decoder configuration\<close>

text \<open>
  The guard \<^verbatim>\<open>len(nalus) < 1\<close> never holds, and the loop and the reads of the profile
  bytes can only panic: \<^verbatim>\<open>CreateAvcCMp4Box\<close> returns no error value at all.
\<close>

lemma CreateAvcCMp4Box_no_error: "CreateAvcCMp4Box pk p \<noteq> Inl (Error e)"
  using bytes_Split_not_Nil [of "CodecPrivateData p" start_code]
    avc_collect_no_error [of pk _ "[]" "[]" e] avc_profile_no_error [of _ e]
  by (auto simp: CreateAvcCMp4Box_def Let_def split: sum.splits prod.splits)

text \<open>
  C3, as the code has it. Let \<open>segs\<close> be the segments behind the first start code. When
  none of them is empty and the first sequence parameter set, if there is one, has at
  least four bytes, \<^verbatim>\<open>CreateAvcCMp4Box\<close> returns the record with configuration version 1
  and length-size-minus-one 3, whose SPS list holds the segments of NAL type 7 and whose
  PPS list holds those of type 8, both in the order met, and whose profile indication,
  profile compatibility and level indication are the bytes at offsets 1, 2 and 3 of the
  first SPS, or zero when there is no SPS. For the private data \<^verbatim>\<open>00000001 67 42 00 1F E9
  00000001 68 CE 38 80\<close> the record has profile 0x42, compatibility 0x00, level 0x1F, one
  SPS and one PPS.
\<close>

theorem C3_avc_configuration:
  assumes "segs = drop 1 (bytes_Split (CodecPrivateData p) start_code)"
      and "[] \<notin> set segs"
      and "sps = filter (\<lambda>n. avc_GetNaluType pk (hd n) = 7) segs"
      and "pps = filter (\<lambda>n. avc_GetNaluType pk (hd n) = 8) segs"
      and "sps \<noteq> [] \<Longrightarrow> 4 \<le> length (hd sps)"
  shows "CreateAvcCMp4Box pk p =
     Inr (AVCConfigurationBox \<lparr>
       ConfigurationVersion = 1,
       AVCProfileIndication = (if sps = [] then 0 else hd sps ! 1),
       ProfileCompatibility = (if sps = [] then 0 else hd sps ! 2),
       AVCLevelIndication = (if sps = [] then 0 else hd sps ! 3),
       LengthSizeMinusOne = 3,
       SequenceParameterSets = sps,
       PictureParameterSets = pps \<rparr>)"
proof -
  have col: "avc_collect pk segs [] [] = Inr (sps, pps)"
    using avc_collect_ok [OF assms(2), of pk "[]" "[]"] assms(3,4) by simp
  have prof: "avc_profile sps =
      Inr (if sps = [] then 0 else hd sps ! 1, if sps = [] then 0 else hd sps ! 2,
           if sps = [] then 0 else hd sps ! 3)"
    using assms(5) by (cases sps) (auto simp: avc_profile_def index_def)
  show ?thesis
    using bytes_Split_not_Nil [of "CodecPrivateData p" start_code] col prof assms(1)
    by (simp add: CreateAvcCMp4Box_def Let_def)
qed

theorem C3_avc_configuration_witness:
  "[] \<notin> set (drop 1 (bytes_Split (CodecPrivateData avc_track) start_code))
   \<and> CreateAvcCMp4Box h26x avc_track =
     Inr (AVCConfigurationBox \<lparr>
       ConfigurationVersion = 1,
       AVCProfileIndication = 0x42,
       ProfileCompatibility = 0x00,
       AVCLevelIndication = 0x1F,
       LengthSizeMinusOne = 3,
       SequenceParameterSets = [[0x67, 0x42, 0x00, 0x1F, 0xE9]],
       PictureParameterSets = [[0x68, 0xCE, 0x38, 0x80]] \<rparr>)"
  using C3_avc_configuration [of "[[0x67, 0x42, 0x00, 0x1F, 0xE9], [0x68, 0xCE, 0x38, 0x80]]"
      avc_track "[[0x67, 0x42, 0x00, 0x1F, 0xE9]]" h26x "[[0x68, 0xCE, 0x38, 0x80]]"]
  by (simp add: avc_track_def split_avc_private_data h26x_def)

text \<open>
  C3 as stated fails: the private data \<^verbatim>\<open>00 00 00 01\<close> holds no SPS, and the function
  does not return the record with zeros but panics on the empty segment.
\<close>

theorem C3_avc_configuration_counterexample:
  "CreateAvcCMp4Box h26x (avc_track\<lparr>CodecPrivateData := [0, 0, 0, 1]\<rparr>)
     = Inl (Panic (IndexOutOfRange 0 0))"
  by (simp add: CreateAvcCMp4Box_def bytes_Split_def start_code_def index_def)

text \<open>
  C6, where the code departs from it: private data without any start code is split into
  one segment, the input itself, so no candidate unit is left; the function then succeeds
  with a record of zeros and empty lists, where the claim has it fail with the invalid
  parameter error. It returns no error value on any input.
\<close>

theorem C6_avc_without_start_code:
  "(\<forall>e. CreateAvcCMp4Box pk p \<noteq> Inl (Error e))
   \<and> (length (bytes_Split (CodecPrivateData p) start_code) = 1 \<longrightarrow>
        CreateAvcCMp4Box pk p =
          Inr (AVCConfigurationBox \<lparr>
            ConfigurationVersion = 1,
            AVCProfileIndication = 0,
            ProfileCompatibility = 0,
            AVCLevelIndication = 0,
            LengthSizeMinusOne = 3,
            SequenceParameterSets = [],
            PictureParameterSets = [] \<rparr>))"
proof (intro conjI allI impI)
  fix e show "CreateAvcCMp4Box pk p \<noteq> Inl (Error e)"
    by (rule CreateAvcCMp4Box_no_error)
next
  assume "length (bytes_Split (CodecPrivateData p) start_code) = 1"
  then obtain x where "bytes_Split (CodecPrivateData p) start_code = [x]"
    by (cases "bytes_Split (CodecPrivateData p) start_code") auto
  then show "CreateAvcCMp4Box pk p =
          Inr (AVCConfigurationBox \<lparr>
            ConfigurationVersion = 1,
            AVCProfileIndication = 0,
            ProfileCompatibility = 0,
            AVCLevelIndication = 0,
            LengthSizeMinusOne = 3,
            SequenceParameterSets = [],
            PictureParameterSets = [] \<rparr>)"
    by (simp add: CreateAvcCMp4Box_def avc_profile_def)
qed

theorem C6_avc_without_start_code_witness:
  "length (bytes_Split (CodecPrivateData (avc_track\<lparr>CodecPrivateData := [0x67, 0x42, 0x00, 0x1F]\<rparr>))
      start_code) = 1
   \<and> CreateAvcCMp4Box h26x (avc_track\<lparr>CodecPrivateData := [0x67, 0x42, 0x00, 0x1F]\<rparr>) =
       Inr (AVCConfigurationBox \<lparr>
         ConfigurationVersion = 1,
         AVCProfileIndication = 0,
         ProfileCompatibility = 0,
         AVCLevelIndication = 0,
         LengthSizeMinusOne = 3,
         SequenceParameterSets = [],
         PictureParameterSets = [] \<rparr>)"
  using C6_avc_without_start_code [of h26x "avc_track\<lparr>CodecPrivateData := [0x67, 0x42, 0x00, 0x1F]\<rparr>"]
  by (simp add: bytes_Split_def start_code_def)

subsection \<open>The HEVC decoder configuration\<close>

text \<open>
  Without a sequence parameter set among non-empty segments, \<^verbatim>\<open>CreateHvcCMp4Box\<close> fails
  with the error that names the missing SPS, whatever video and picture parameter sets
  there are.
\<close>

lemma CreateHvcCMp4Box_no_sps:
  assumes "[] \<notin> set (drop 1 (bytes_Split (CodecPrivateData p) start_code))"
      and "\<forall>n \<in> set (drop 1 (bytes_Split (CodecPrivateData p) start_code)).
             hevc_GetNaluType pk (hd n) \<noteq> 33"
  shows "CreateHvcCMp4Box pk p = Inl (Error (Errorf ''cannot find hevc sps nalu'' None))"
proof -
  have "filter (\<lambda>n. hevc_GetNaluType pk (hd n) = 33)
          (drop 1 (bytes_Split (CodecPrivateData p) start_code)) = []"
    using assms(2) by (auto simp: filter_empty_conv)
  then show ?thesis
    using hevc_collect_ok [OF assms(1), of pk "[]" "[]" "[]"]
      bytes_Split_not_Nil [of "CodecPrivateData p" start_code]
    by (simp add: CreateHvcCMp4Box_def Let_def)
qed

lemma CreateHvcCMp4Box_vps_pps_only:
  "CreateHvcCMp4Box h26x
     (avc_track\<lparr>CodecPrivateData := [0, 0, 0, 1, 0x40, 0x01, 0x0C, 0, 0, 0, 1, 0x44, 0x01, 0xC1]\<rparr>)
   = Inl (Error (Errorf ''cannot find hevc sps nalu'' None))"
  by (simp add: CreateHvcCMp4Box_def bytes_Split_def start_code_def index_def h26x_def
      hevc_NALU_VPS_def hevc_NALU_SPS_def hevc_NALU_PPS_def)

text \<open>
  C5, where the code departs from it: private data without any start code is split into
  one segment, the input itself; the function then fails with the error of the missing
  SPS, which wraps no sentinel, where the claim has it fail with the invalid parameter
  error.
\<close>

theorem C5_hevc_without_start_code:
  assumes "length (bytes_Split (CodecPrivateData p) start_code) = 1"
  shows "CreateHvcCMp4Box pk p = Inl (Error (Errorf ''cannot find hevc sps nalu'' None))"
proof -
  from assms obtain x where "bytes_Split (CodecPrivateData p) start_code = [x]"
    by (cases "bytes_Split (CodecPrivateData p) start_code") auto
  then show ?thesis
    by (simp add: CreateHvcCMp4Box_def)
qed

theorem C5_hevc_without_start_code_witness:
  "length (bytes_Split (CodecPrivateData (hevc_track\<lparr>CodecPrivateData := [0x42, 0x01, 0x01]\<rparr>))
      start_code) = 1
   \<and> CreateHvcCMp4Box h26x (hevc_track\<lparr>CodecPrivateData := [0x42, 0x01, 0x01]\<rparr>) =
       Inl (Error (Errorf ''cannot find hevc sps nalu'' None))
   \<and> wrapped (Errorf ''cannot find hevc sps nalu'' None) \<noteq> Some ErrInvalidParam"
  using C5_hevc_without_start_code [of "hevc_track\<lparr>CodecPrivateData := [0x42, 0x01, 0x01]\<rparr>" h26x]
  by (simp add: bytes_Split_def start_code_def)

subsection \<open>Empty segments\<close>

text \<open>
  C9: when a start code of the private data ends the input or is followed at once by
  another start code, both \<^verbatim>\<open>CreateAvcCMp4Box\<close> and \<^verbatim>\<open>CreateHvcCMp4Box\<close> read byte 0 of an
  empty segment and panic with an index out of range; they return no error value.
\<close>

theorem C9_empty_segment_panics:
  assumes "CodecPrivateData p = pre @ start_code @ rest"
      and "rest = [] \<or> rest = start_code @ rest'"
  shows "CreateAvcCMp4Box pk p = Inl (Panic (IndexOutOfRange 0 0))
       \<and> CreateHvcCMp4Box pk p = Inl (Panic (IndexOutOfRange 0 0))"
proof -
  have "rest = [] \<or> take 4 rest = start_code"
    using assms(2) by (auto simp: start_code_def)
  then have "[] \<in> set (drop 1 (bytes_Split (CodecPrivateData p) start_code))"
    using split_from_marker [OF assms(1), of "[]"] by (simp add: bytes_Split_def drop_Suc)
  then show ?thesis
    using avc_collect_panic [of _ pk "[]" "[]"] hevc_collect_panic [of _ pk "[]" "[]" "[]"]
      bytes_Split_not_Nil [of "CodecPrivateData p" start_code]
    by (simp add: CreateAvcCMp4Box_def CreateHvcCMp4Box_def Let_def)
qed

theorem C9_empty_segment_panics_witness:
  "CodecPrivateData (avc_track\<lparr>CodecPrivateData := [0, 0, 0, 1, 0, 0, 0, 1, 0x67, 0x42, 0x00, 0x1F]\<rparr>)
     = [] @ start_code @ (start_code @ [0x67, 0x42, 0x00, 0x1F])
   \<and> CreateAvcCMp4Box h26x (avc_track\<lparr>CodecPrivateData := [0, 0, 0, 1, 0, 0, 0, 1, 0x67, 0x42, 0x00, 0x1F]\<rparr>)
     = Inl (Panic (IndexOutOfRange 0 0))
   \<and> CreateHvcCMp4Box h26x (avc_track\<lparr>CodecPrivateData := [0, 0, 0, 1, 0, 0, 0, 1, 0x67, 0x42, 0x00, 0x1F]\<rparr>)
     = Inl (Panic (IndexOutOfRange 0 0))"
  using C9_empty_segment_panics
    [of "avc_track\<lparr>CodecPrivateData := [0, 0, 0, 1, 0, 0, 0, 1, 0x67, 0x42, 0x00, 0x1F]\<rparr>"
      "[]" "start_code @ [0x67, 0x42, 0x00, 0x1F]" "[0x67, 0x42, 0x00, 0x1F]" h26x]
  by (simp add: start_code_def)

subsection \<open>Assembling boxes\<close>

lemma Mp4BoxReplaceChildren_Inr:
  "Mp4BoxReplaceChildren pk b cs = Inr b' \<Longrightarrow> b' = set_children b cs"
  by (auto simp: Mp4BoxReplaceChildren_def split: option.splits)

lemma Mp4BoxReplaceChildren_accepting:
  "\<forall>b cs. mp4_refuses pk b cs = None \<Longrightarrow> Mp4BoxReplaceChildren pk b cs = Inr (set_children b cs)"
  by (simp add: Mp4BoxReplaceChildren_def)

lemma CreateAvcCMp4Box_Inr:
  "CreateAvcCMp4Box pk p = Inr b \<Longrightarrow> \<exists>r. b = AVCConfigurationBox r"
  by (auto simp: CreateAvcCMp4Box_def Let_def split: if_splits sum.splits prod.splits)

lemma CreateHvcCMp4Box_Inr:
  "CreateHvcCMp4Box pk p = Inr b \<Longrightarrow> \<exists>r. b = HEVCConfigurationBox r"
  by (auto simp: CreateHvcCMp4Box_def Let_def split: if_splits sum.splits prod.splits)

lemma CreateSinfMp4Box_Inr:
  "CreateSinfMp4Box pk p = Inr sinf \<Longrightarrow>
   sinf = ProtectionSchemeInfoBox
     [OriginalFormatBox (Codec p),
      SchemeTypeBox \<lparr> schm_SchemeType = CencFourCC, schm_SchemeVersion = 0x00010000 \<rparr>,
      SchemeInformationBox
        [TrackEncryptionBox \<lparr> tenc_DefaultIsProtected = 1, tenc_DefaultPerSampleIVSize = 8,
           tenc_DefaultKID = KID p \<rparr>]]"
  by (auto simp: CreateSinfMp4Box_def CreateSchiMp4Box_def Let_def
      dest!: Mp4BoxReplaceChildren_Inr split: sum.splits)

lemma CreateSinfMp4Box_accepting:
  "\<forall>b cs. mp4_refuses pk b cs = None \<Longrightarrow> \<exists>sinf. CreateSinfMp4Box pk p = Inr sinf"
  by (simp add: CreateSinfMp4Box_def CreateSchiMp4Box_def Let_def Mp4BoxReplaceChildren_accepting)

lemma finish_sample_entry_Inr:
  "finish_sample_entry pk p entry conf = Inr b \<Longrightarrow>
   \<exists>v rest. b = VisualSampleEntryBox v (conf # rest)
     \<and> v = entry\<lparr>vse_Type := (if Protected p then EncvBoxType else vse_Type entry)\<rparr>
     \<and> (if Protected p then CreateSinfMp4Box pk p = Inr (hd rest) \<and> length rest = 1 else rest = [])"
  by (auto simp: finish_sample_entry_def dest!: Mp4BoxReplaceChildren_Inr split: sum.splits if_splits)

lemma finish_sample_entry_accepting:
  "\<forall>b cs. mp4_refuses pk b cs = None \<Longrightarrow> \<exists>b. finish_sample_entry pk p entry conf = Inr b"
  using CreateSinfMp4Box_accepting [of pk p]
  by (auto simp: finish_sample_entry_def Mp4BoxReplaceChildren_accepting)

lemma CreateAvc1Mp4Box_finish:
  "CreateAvc1Mp4Box pk p =
     (case CreateAvcCMp4Box pk p of
        Inl f \<Rightarrow> Inl f
      | Inr avcC \<Rightarrow>
          finish_sample_entry pk p
            \<lparr> vse_Type = Avc1FourCC, vse_DataReferenceIndex = 1,
              vse_Width = ucast (Width p), vse_Height = ucast (Height p),
              vse_HorizResolution = 72, vse_VertResolution = 72, vse_FrameCount = 1,
              vse_CompressorName = ''AVC Coding'', vse_Depth = 0x0018 \<rparr> avcC)"
  by (simp add: CreateAvc1Mp4Box_def finish_sample_entry_def Let_def split: sum.splits)

lemma CreateHvc1Mp4Box_finish:
  "CreateHvc1Mp4Box pk p =
     (case CreateHvcCMp4Box pk p of
        Inl f \<Rightarrow> Inl f
      | Inr hvcC \<Rightarrow>
          finish_sample_entry pk p
            \<lparr> vse_Type = Codec p, vse_DataReferenceIndex = 1,
              vse_Width = ucast (Width p), vse_Height = ucast (Height p),
              vse_HorizResolution = 72, vse_VertResolution = 72, vse_FrameCount = 1,
              vse_CompressorName = ''HEVC Coding'', vse_Depth = 0x0018 \<rparr> hvcC)"
  by (simp add: CreateHvc1Mp4Box_def finish_sample_entry_def Let_def split: sum.splits)

text \<open>
  C2: for a protected track whose codec is AVC, the sample entry that \<^verbatim>\<open>CreateAvc1Mp4Box\<close>
  returns has the type \<^verbatim>\<open>encv\<close> and exactly two children: the AVC configuration box,
  then the protection scheme box with the original format box of the codec, the scheme
  type box \<^verbatim>\<open>cenc\<close> of version 0x00010000, and the scheme information box that holds one
  track encryption box with default-is-protected 1, IV size 8 and the track's KID. The
  function does return a box whenever the configuration box can be built and the
  container package accepts the assemblies.
\<close>

theorem C2_protected_avc:
  assumes "Protected p" and "Codec p = Avc1FourCC"
  shows "(\<forall>b. CreateAvc1Mp4Box pk p = Inr b \<longrightarrow>
           (\<exists>v avcC. b = VisualSampleEntryBox v
              [AVCConfigurationBox avcC,
               ProtectionSchemeInfoBox
                 [OriginalFormatBox Avc1FourCC,
                  SchemeTypeBox \<lparr> schm_SchemeType = CencFourCC, schm_SchemeVersion = 0x00010000 \<rparr>,
                  SchemeInformationBox
                    [TrackEncryptionBox \<lparr> tenc_DefaultIsProtected = 1,
                       tenc_DefaultPerSampleIVSize = 8, tenc_DefaultKID = KID p \<rparr>]]]
            \<and> vse_Type v = EncvBoxType
            \<and> CreateAvcCMp4Box pk p = Inr (AVCConfigurationBox avcC)))
       \<and> ((\<forall>b cs. mp4_refuses pk b cs = None) \<longrightarrow>
            (\<forall>c. CreateAvcCMp4Box pk p = Inr c \<longrightarrow> (\<exists>b. CreateAvc1Mp4Box pk p = Inr b)))"
proof (intro conjI allI impI)
  fix b assume b: "CreateAvc1Mp4Box pk p = Inr b"
  then obtain c entry where c: "CreateAvcCMp4Box pk p = Inr c"
      and f: "finish_sample_entry pk p entry c = Inr b"
    by (auto simp: CreateAvc1Mp4Box_finish split: sum.splits)
  from c obtain avcC where avcC: "c = AVCConfigurationBox avcC"
    using CreateAvcCMp4Box_Inr by blast
  from finish_sample_entry_Inr [OF f] assms(1)
  obtain v rest where v: "b = VisualSampleEntryBox v (c # rest)" "vse_Type v = EncvBoxType"
      "CreateSinfMp4Box pk p = Inr (hd rest)" "length rest = 1"
    by auto
  from v(4) obtain s where rest: "rest = [s]" by (cases rest) auto
  with v(3) have "CreateSinfMp4Box pk p = Inr s" by simp
  from CreateSinfMp4Box_Inr [OF this] assms(2) v(1,2) rest avcC c
  show "\<exists>v avcC. b = VisualSampleEntryBox v
              [AVCConfigurationBox avcC,
               ProtectionSchemeInfoBox
                 [OriginalFormatBox Avc1FourCC,
                  SchemeTypeBox \<lparr> schm_SchemeType = CencFourCC, schm_SchemeVersion = 0x00010000 \<rparr>,
                  SchemeInformationBox
                    [TrackEncryptionBox \<lparr> tenc_DefaultIsProtected = 1,
                       tenc_DefaultPerSampleIVSize = 8, tenc_DefaultKID = KID p \<rparr>]]]
            \<and> vse_Type v = EncvBoxType
            \<and> CreateAvcCMp4Box pk p = Inr (AVCConfigurationBox avcC)"
    by simp
next
  fix c assume "\<forall>b cs. mp4_refuses pk b cs = None" "CreateAvcCMp4Box pk p = Inr c"
  then show "\<exists>b. CreateAvc1Mp4Box pk p = Inr b"
    using finish_sample_entry_accepting [of pk p]
    by (simp add: CreateAvc1Mp4Box_finish)
qed

lemma avc_private_data_avcC:
  "CodecPrivateData p = avc_private_data \<Longrightarrow> CreateAvcCMp4Box h26x p =
     Inr (AVCConfigurationBox \<lparr>
       ConfigurationVersion = 1,
       AVCProfileIndication = 0x42,
       ProfileCompatibility = 0x00,
       AVCLevelIndication = 0x1F,
       LengthSizeMinusOne = 3,
       SequenceParameterSets = [[0x67, 0x42, 0x00, 0x1F, 0xE9]],
       PictureParameterSets = [[0x68, 0xCE, 0x38, 0x80]] \<rparr>)"
  by (simp add: CreateAvcCMp4Box_def split_avc_private_data Let_def index_def
      h26x_def avc_NALU_SPS_def avc_NALU_PPS_def avc_profile_def)

lemma h26x_accepting: "\<forall>b cs. mp4_refuses h26x b cs = None"
  by (simp add: h26x_def)

theorem C2_protected_avc_witness:
  "Protected (avc_track\<lparr>Protected := True\<rparr>) \<and> Codec (avc_track\<lparr>Protected := True\<rparr>) = Avc1FourCC
   \<and> (\<exists>b v avcC. CreateAvc1Mp4Box h26x (avc_track\<lparr>Protected := True\<rparr>) = Inr b
        \<and> b = VisualSampleEntryBox v
              [AVCConfigurationBox avcC,
               ProtectionSchemeInfoBox
                 [OriginalFormatBox Avc1FourCC,
                  SchemeTypeBox \<lparr> schm_SchemeType = CencFourCC, schm_SchemeVersion = 0x00010000 \<rparr>,
                  SchemeInformationBox
                    [TrackEncryptionBox \<lparr> tenc_DefaultIsProtected = 1,
                       tenc_DefaultPerSampleIVSize = 8,
                       tenc_DefaultKID = [1, 2, 3, 4, 5, 6, 7, 8, 9, 10, 11, 12, 13, 14, 15, 16] \<rparr>]]]
        \<and> vse_Type v = EncvBoxType)"
proof -
  let ?p = "avc_track\<lparr>Protected := True\<rparr>"
  have p: "Protected ?p" "Codec ?p = Avc1FourCC" by (simp_all add: avc_track_def)
  have c: "\<exists>c. CreateAvcCMp4Box h26x ?p = Inr c"
    using avc_private_data_avcC [of ?p] by (simp add: avc_track_def)
  from C2_protected_avc [OF p, of h26x] h26x_accepting c
  obtain b where "CreateAvc1Mp4Box h26x ?p = Inr b" by blast
  with C2_protected_avc [OF p, of h26x] p show ?thesis
    by (auto simp: avc_track_def)
qed


subsection \<open>The sample entry\<close>

text \<open>
  C1, as the code has it: for a track whose codec is \<^verbatim>\<open>hvc1\<close> or \<^verbatim>\<open>hev1\<close>, the box that
  \<^verbatim>\<open>CreateSampleEntryMp4Box\<close> returns is a visual sample entry whose type is the codec of
  the track itself, \<^verbatim>\<open>hvc1\<close> for \<^verbatim>\<open>hvc1\<close> and \<^verbatim>\<open>hev1\<close> for \<^verbatim>\<open>hev1\<close>, or \<^verbatim>\<open>encv\<close> when the
  track is protected; its compressor name is \<^verbatim>\<open>HEVC Coding\<close> and its first child is the
  HEVC configuration box, the only child unless the track is protected. The function does
  return a box whenever the configuration box can be built and the container package
  accepts the assemblies.
\<close>

theorem C1_hevc_sample_entry:
  assumes "Codec p = Hvc1FourCC \<or> Codec p = Hev1FourCC"
  shows "(\<forall>b. CreateSampleEntryMp4Box pk p = Inr b \<longrightarrow>
           (\<exists>v conf rest. b = VisualSampleEntryBox v (HEVCConfigurationBox conf # rest)
              \<and> vse_Type v = (if Protected p then EncvBoxType else Codec p)
              \<and> vse_CompressorName v = ''HEVC Coding''
              \<and> CreateHvcCMp4Box pk p = Inr (HEVCConfigurationBox conf)
              \<and> (if Protected p then length rest = 1 else rest = [])))
       \<and> ((\<forall>b cs. mp4_refuses pk b cs = None) \<longrightarrow>
            (\<forall>c. CreateHvcCMp4Box pk p = Inr c \<longrightarrow> (\<exists>b. CreateSampleEntryMp4Box pk p = Inr b)))"
proof (intro conjI allI impI)
  have disp: "CreateSampleEntryMp4Box pk p = CreateHvc1Mp4Box pk p"
    using assms by (auto simp: CreateSampleEntryMp4Box_def Avc1FourCC_def Hvc1FourCC_def Hev1FourCC_def)
  {
    fix b assume "CreateSampleEntryMp4Box pk p = Inr b"
    then obtain c entry where c: "CreateHvcCMp4Box pk p = Inr c"
        and f: "finish_sample_entry pk p entry c = Inr b"
        and e: "vse_Type entry = Codec p" "vse_CompressorName entry = ''HEVC Coding''"
      by (auto simp: disp CreateHvc1Mp4Box_finish split: sum.splits)
    from c obtain conf where conf: "c = HEVCConfigurationBox conf"
      using CreateHvcCMp4Box_Inr by blast
    from finish_sample_entry_Inr [OF f] e conf c
    show "\<exists>v conf rest. b = VisualSampleEntryBox v (HEVCConfigurationBox conf # rest)
              \<and> vse_Type v = (if Protected p then EncvBoxType else Codec p)
              \<and> vse_CompressorName v = ''HEVC Coding''
              \<and> CreateHvcCMp4Box pk p = Inr (HEVCConfigurationBox conf)
              \<and> (if Protected p then length rest = 1 else rest = [])"
      by (auto split: if_splits)
  }
  {
    fix c assume "\<forall>b cs. mp4_refuses pk b cs = None" "CreateHvcCMp4Box pk p = Inr c"
    then show "\<exists>b. CreateSampleEntryMp4Box pk p = Inr b"
      using finish_sample_entry_accepting [of pk p]
      by (simp add: disp CreateHvc1Mp4Box_finish)
  }
qed

text \<open>
  On the complete parameter sets the record is built; on a sequence parameter set of
  three bytes the builder ends with \<^verbatim>\<open>EOF\<close>, and no sample entry is returned.
\<close>

lemma hevc_sps_complete: "hevc_sps_fixed_length \<le> length (rbsp 0 hevc_sps)"
  by (simp add: hevc_sps_def hevc_sps_fixed_length_def)

lemma hevc_private_data_hvcC:
  "CodecPrivateData p = hevc_private_data \<Longrightarrow> CreateHvcCMp4Box h26x p =
     Inr (HEVCConfigurationBox ([hevc_vps], [hevc_sps], [hevc_pps]))"
proof -
  have first: "index hevc_vps 0 = Inr 0x40" "index hevc_sps 0 = Inr 0x42"
      "index hevc_pps 0 = Inr 0x44"
    by (simp_all add: index_def hevc_vps_def hevc_sps_def hevc_pps_def)
  have build: "hevc_CreateHEVCDecoderConfigurationRecord h26x [hevc_vps] [hevc_sps] [hevc_pps]
      True True True = Inr ([hevc_vps], [hevc_sps], [hevc_pps])"
    using hevc_sps_complete by (simp add: h26x_def index_def)
  have types: "hevc_GetNaluType h26x 0x40 = 32" "hevc_GetNaluType h26x 0x42 = 33"
      "hevc_GetNaluType h26x 0x44 = 34"
    by (simp_all add: h26x_def)
  assume "CodecPrivateData p = hevc_private_data"
  then show ?thesis
    using first build types
    by (simp add: CreateHvcCMp4Box_def split_hevc_private_data Let_def
        hevc_NALU_VPS_def hevc_NALU_SPS_def hevc_NALU_PPS_def)
qed

lemma hevc_short_sps_EOF:
  "CreateSampleEntryMp4Box h26x
     (hevc_track\<lparr>CodecPrivateData :=
        [0, 0, 0, 1, 0x40, 0x01, 0x0C, 0, 0, 0, 1, 0x42, 0x01, 0x01, 0, 0, 0, 1, 0x44, 0x01, 0xC1]\<rparr>)
   = Inl (Error (Errorf ''EOF'' None))"
  by (simp add: CreateSampleEntryMp4Box_def CreateHvc1Mp4Box_def CreateHvcCMp4Box_def
      hevc_track_def avc_track_def Avc1FourCC_def Hvc1FourCC_def Hev1FourCC_def
      bytes_Split_def start_code_def index_def h26x_def hevc_sps_fixed_length_def
      hevc_NALU_VPS_def hevc_NALU_SPS_def hevc_NALU_PPS_def)

theorem C1_hevc_sample_entry_witness:
  "(Codec hevc_track = Hvc1FourCC \<or> Codec hevc_track = Hev1FourCC)
   \<and> (\<exists>b v rest. CreateSampleEntryMp4Box h26x hevc_track = Inr b
        \<and> b = VisualSampleEntryBox v
              (HEVCConfigurationBox ([hevc_vps], [hevc_sps], [hevc_pps]) # rest)
        \<and> vse_Type v = Hev1FourCC
        \<and> vse_CompressorName v = ''HEVC Coding''
        \<and> rest = [])"
proof -
  have p: "Codec hevc_track = Hvc1FourCC \<or> Codec hevc_track = Hev1FourCC"
    by (simp add: hevc_track_def)
  have c: "CreateHvcCMp4Box h26x hevc_track =
      Inr (HEVCConfigurationBox ([hevc_vps], [hevc_sps], [hevc_pps]))"
    using hevc_private_data_hvcC [of hevc_track] by (simp add: hevc_track_def)
  from C1_hevc_sample_entry [OF p, of h26x] h26x_accepting c
  obtain b where "CreateSampleEntryMp4Box h26x hevc_track = Inr b" by blast
  with C1_hevc_sample_entry [OF p, of h26x] p c show ?thesis
    by (auto simp: hevc_track_def avc_track_def)
qed

text \<open>
  C1 as stated fails: for an unprotected \<^verbatim>\<open>hev1\<close> track with complete parameter sets
  the sample entry is returned, and its type is \<^verbatim>\<open>hev1\<close>, not \<^verbatim>\<open>hvc1\<close>.
\<close>

theorem C1_hevc_sample_entry_counterexample:
  "Codec hevc_track = Hev1FourCC \<and> \<not> Protected hevc_track
   \<and> CreateSampleEntryMp4Box h26x hevc_track =
     Inr (VisualSampleEntryBox
       \<lparr> vse_Type = ''hev1'',
         vse_DataReferenceIndex = 1,
         vse_Width = 1920,
         vse_Height = 1080,
         vse_HorizResolution = 72,
         vse_VertResolution = 72,
         vse_FrameCount = 1,
         vse_CompressorName = ''HEVC Coding'',
         vse_Depth = 0x0018 \<rparr>
       [HEVCConfigurationBox ([hevc_vps], [hevc_sps], [hevc_pps])])"
proof -
  have "CodecPrivateData hevc_track = hevc_private_data" "Codec hevc_track = ''hev1''"
    "\<not> Protected hevc_track" "Width hevc_track = 1920" "Height hevc_track = 1080"
    by (simp_all add: hevc_track_def avc_track_def Hev1FourCC_def)
  then show ?thesis
    using h26x_accepting
    by (simp add: CreateSampleEntryMp4Box_def CreateHvc1Mp4Box_finish hevc_private_data_hvcC
        finish_sample_entry_def Mp4BoxReplaceChildren_accepting
        Avc1FourCC_def Hvc1FourCC_def Hev1FourCC_def)
qed

text \<open>
  C4: for a codec that is none of \<^verbatim>\<open>avc1\<close>, \<^verbatim>\<open>hvc1\<close> and \<^verbatim>\<open>hev1\<close>,
  \<^verbatim>\<open>CreateSampleEntryMp4Box\<close> fails with an error that wraps \<^verbatim>\<open>ErrUnknownCodec\<close> and whose
  message names the codec; for \<^verbatim>\<open>AC-3\<close> the message names \<^verbatim>\<open>AC-3\<close>.
\<close>

theorem C4_unsupported_codec:
  assumes "Codec p \<noteq> Avc1FourCC" and "Codec p \<noteq> Hvc1FourCC" and "Codec p \<noteq> Hev1FourCC"
  shows "CreateSampleEntryMp4Box pk p =
     Inl (Error (Errorf (''codec '' @ Codec p @ '' not supported: codec not supported'')
                        (Some ErrUnknownCodec)))"
  using assms by (simp add: CreateSampleEntryMp4Box_def)

theorem C4_unsupported_codec_witness:
  "Codec (avc_track\<lparr>Codec := ''AC-3''\<rparr>) \<noteq> Avc1FourCC
   \<and> Codec (avc_track\<lparr>Codec := ''AC-3''\<rparr>) \<noteq> Hvc1FourCC
   \<and> Codec (avc_track\<lparr>Codec := ''AC-3''\<rparr>) \<noteq> Hev1FourCC
   \<and> CreateSampleEntryMp4Box h26x (avc_track\<lparr>Codec := ''AC-3''\<rparr>) =
       Inl (Error (Errorf ''codec AC-3 not supported: codec not supported'' (Some ErrUnknownCodec)))"
  using C4_unsupported_codec [of "avc_track\<lparr>Codec := ''AC-3''\<rparr>" h26x]
  by (simp add: Avc1FourCC_def Hvc1FourCC_def Hev1FourCC_def)


subsection \<open>The media information box\<close>

lemma CreateDinfMp4Box_Inr:
  "CreateDinfMp4Box pk p = Inr dinf \<Longrightarrow> \<exists>cs. dinf = DataInformationBox cs"
  by (auto simp: CreateDinfMp4Box_def dest!: Mp4BoxReplaceChildren_Inr split: sum.splits)

lemma CreateDinfMp4Box_accepting:
  "\<forall>b cs. mp4_refuses pk b cs = None \<Longrightarrow> \<exists>dinf. CreateDinfMp4Box pk p = Inr dinf"
  by (simp add: CreateDinfMp4Box_def CreateDrefMp4Box_def Mp4BoxAppend_def Let_def
      Mp4BoxReplaceChildren_accepting)

lemma CreateStblMp4Box_Inr:
  "CreateStblMp4Box pk p = Inr stbl \<Longrightarrow> \<exists>cs. stbl = SampleTableBox cs"
  by (auto simp: CreateStblMp4Box_def dest!: Mp4BoxReplaceChildren_Inr split: sum.splits)

lemma CreateStblMp4Box_accepting:
  "\<forall>b cs. mp4_refuses pk b cs = None \<Longrightarrow> CreateSampleEntryMp4Box pk p = Inr e \<Longrightarrow>
   \<exists>stbl. CreateStblMp4Box pk p = Inr stbl"
  by (simp add: CreateStblMp4Box_def CreateStsdMp4Box_def Mp4BoxReplaceChildren_accepting)

lemma CreateMinfMp4Box_accepting:
  "\<forall>b cs. mp4_refuses pk b cs = None \<Longrightarrow> CreateSampleEntryMp4Box pk p = Inr e \<Longrightarrow>
   \<exists>minf. CreateMinfMp4Box pk p = Inr minf"
  using CreateDinfMp4Box_accepting [of pk p] CreateStblMp4Box_accepting [of pk p e]
  by (auto simp: CreateMinfMp4Box_def CreateMhdMp4Box_def Let_def Mp4BoxReplaceChildren_accepting)

lemma CreateSampleEntryMp4Box_avc_accepting:
  "\<forall>b cs. mp4_refuses pk b cs = None \<Longrightarrow> Codec p = Avc1FourCC \<Longrightarrow>
   CreateAvcCMp4Box pk p = Inr c \<Longrightarrow> \<exists>e. CreateSampleEntryMp4Box pk p = Inr e"
  using finish_sample_entry_accepting [of pk p]
  by (simp add: CreateSampleEntryMp4Box_def CreateAvc1Mp4Box_finish)

text \<open>
  C7: the media information box that \<^verbatim>\<open>CreateMinfMp4Box\<close> returns holds a video media
  header exactly when the stream type is video and a sound media header exactly when it
  is audio; its children are that header, if any, then the data information box and the
  sample table box. For a text stream, or any other type, they are the data information
  box and the sample table box alone. The function does return a box whenever the sample
  entry can be built and the container package accepts the assemblies.
\<close>

theorem C7_media_header_variant:
  "(\<forall>minf. CreateMinfMp4Box pk p = Inr minf \<longrightarrow>
      (\<exists>ds ss. minf = MediaInformationBox
           ((if StreamType p = VideoStream then [VideoMediaHeaderBox]
             else if StreamType p = AudioStream then [SoundMediaHeaderBox]
             else [])
            @ [DataInformationBox ds, SampleTableBox ss]))
      \<and> (VideoMediaHeaderBox \<in> set (children minf) \<longleftrightarrow> StreamType p = VideoStream)
      \<and> (SoundMediaHeaderBox \<in> set (children minf) \<longleftrightarrow> StreamType p = AudioStream))
   \<and> ((\<forall>b cs. mp4_refuses pk b cs = None) \<longrightarrow>
        (\<forall>e. CreateSampleEntryMp4Box pk p = Inr e \<longrightarrow> (\<exists>minf. CreateMinfMp4Box pk p = Inr minf)))"
proof (intro conjI allI impI)
  fix minf assume m: "CreateMinfMp4Box pk p = Inr minf"
  then obtain dinf stbl where d: "CreateDinfMp4Box pk p = Inr dinf"
      and s: "CreateStblMp4Box pk p = Inr stbl"
      and shape: "minf = MediaInformationBox
           ((if StreamType p = VideoStream then [VideoMediaHeaderBox]
             else if StreamType p = AudioStream then [SoundMediaHeaderBox]
             else [])
            @ [dinf, stbl])"
    by (auto simp: CreateMinfMp4Box_def CreateMhdMp4Box_def Let_def
        dest!: Mp4BoxReplaceChildren_Inr split: sum.splits if_splits)
  from CreateDinfMp4Box_Inr [OF d] obtain ds where ds: "dinf = DataInformationBox ds" by blast
  from CreateStblMp4Box_Inr [OF s] obtain ss where ss: "stbl = SampleTableBox ss" by blast
  show "\<exists>ds ss. minf = MediaInformationBox
           ((if StreamType p = VideoStream then [VideoMediaHeaderBox]
             else if StreamType p = AudioStream then [SoundMediaHeaderBox]
             else [])
            @ [DataInformationBox ds, SampleTableBox ss])"
    using shape ds ss by blast
  show "VideoMediaHeaderBox \<in> set (children minf) \<longleftrightarrow> StreamType p = VideoStream"
    using shape ds ss by auto
  show "SoundMediaHeaderBox \<in> set (children minf) \<longleftrightarrow> StreamType p = AudioStream"
    using shape ds ss by (auto simp: VideoStream_def AudioStream_def)
next
  fix e assume "\<forall>b cs. mp4_refuses pk b cs = None" "CreateSampleEntryMp4Box pk p = Inr e"
  then show "\<exists>minf. CreateMinfMp4Box pk p = Inr minf"
    by (rule CreateMinfMp4Box_accepting)
qed

theorem C7_media_header_variant_witness:
  "\<exists>minf ds ss. CreateMinfMp4Box h26x text_track = Inr minf
     \<and> minf = MediaInformationBox [DataInformationBox ds, SampleTableBox ss]
     \<and> VideoMediaHeaderBox \<notin> set (children minf)
     \<and> SoundMediaHeaderBox \<notin> set (children minf)"
proof -
  have "\<exists>c. CreateAvcCMp4Box h26x text_track = Inr c"
    using avc_private_data_avcC [of text_track] by (simp add: text_track_def avc_track_def)
  then have "\<exists>e. CreateSampleEntryMp4Box h26x text_track = Inr e"
    using CreateSampleEntryMp4Box_avc_accepting [OF h26x_accepting, of text_track]
    by (auto simp: text_track_def avc_track_def)
  with C7_media_header_variant [of h26x text_track] h26x_accepting
  obtain minf where m: "CreateMinfMp4Box h26x text_track = Inr minf" by blast
  have t: "StreamType text_track \<noteq> VideoStream" "StreamType text_track \<noteq> AudioStream"
    by (simp_all add: text_track_def TextStream_def VideoStream_def AudioStream_def)
  from C7_media_header_variant [of h26x text_track] m t show ?thesis
    by auto
qed

subsection \<open>Timescale and duration in the headers\<close>

text \<open>
  C10: the movie header and the media header store the timescale modulo \<open>2^32\<close> and the
  duration as \<^verbatim>\<open>Duration * Timescale\<close> modulo \<open>2^64\<close>; for a timescale of \<open>2^32\<close> or
  more the stored timescale differs from the timescale that the stored duration was
  computed with. The media header is the first child of the media box, which is returned
  whenever the sample entry can be built and the container package accepts the
  assemblies.
\<close>

theorem C10_timescale_truncated:
  "(\<exists>h. (CreateMvhdMp4Box p :: 'h box result) = Inr (MovieHeaderBox h)
       \<and> unat (mvhd_Timescale h) = unat (Timescale p) mod 2 ^ 32
       \<and> unat (mvhd_Duration h) = unat (Duration p) * unat (Timescale p) mod 2 ^ 64
       \<and> (2 ^ 32 \<le> unat (Timescale p) \<longrightarrow> unat (mvhd_Timescale h) \<noteq> unat (Timescale p)))
   \<and> (\<forall>mdia. CreateMdiaMp4Box (pk :: 'h packages) p = Inr mdia \<longrightarrow>
        (\<exists>h rest. mdia = MediaBox (MediaHeaderBox h # rest)
           \<and> unat (mdhd_Timescale h) = unat (Timescale p) mod 2 ^ 32
           \<and> unat (mdhd_Duration h) = unat (Duration p) * unat (Timescale p) mod 2 ^ 64
           \<and> (2 ^ 32 \<le> unat (Timescale p) \<longrightarrow> unat (mdhd_Timescale h) \<noteq> unat (Timescale p))))
   \<and> ((\<forall>b cs. mp4_refuses pk b cs = None) \<longrightarrow>
        (\<forall>e. CreateSampleEntryMp4Box pk p = Inr e \<longrightarrow> (\<exists>mdia. CreateMdiaMp4Box pk p = Inr mdia)))"
proof -
  have ts: "unat (ucast (Timescale p) :: 32 word) = unat (Timescale p) mod 2 ^ 32"
    by (simp add: unsigned_ucast_eq take_bit_eq_mod)
  have du: "unat (Duration p * Timescale p) = unat (Duration p) * unat (Timescale p) mod 2 ^ 64"
    by (simp add: unat_word_ariths)
  have ne: "2 ^ 32 \<le> unat (Timescale p) \<Longrightarrow> unat (Timescale p) mod 2 ^ 32 \<noteq> unat (Timescale p)"
  proof -
    assume "2 ^ 32 \<le> unat (Timescale p)"
    moreover have "unat (Timescale p) mod 2 ^ 32 < 2 ^ 32" by simp
    ultimately show ?thesis by linarith
  qed
  have mvhd: "\<exists>h. (CreateMvhdMp4Box p :: 'h box result) = Inr (MovieHeaderBox h)
       \<and> unat (mvhd_Timescale h) = unat (Timescale p) mod 2 ^ 32
       \<and> unat (mvhd_Duration h) = unat (Duration p) * unat (Timescale p) mod 2 ^ 64
       \<and> (2 ^ 32 \<le> unat (Timescale p) \<longrightarrow> unat (mvhd_Timescale h) \<noteq> unat (Timescale p))"
    using ts du ne by (simp add: CreateMvhdMp4Box_def)
  have mdia: "\<exists>h rest. mdia = MediaBox (MediaHeaderBox h # rest)
           \<and> unat (mdhd_Timescale h) = unat (Timescale p) mod 2 ^ 32
           \<and> unat (mdhd_Duration h) = unat (Duration p) * unat (Timescale p) mod 2 ^ 64
           \<and> (2 ^ 32 \<le> unat (Timescale p) \<longrightarrow> unat (mdhd_Timescale h) \<noteq> unat (Timescale p))"
    if "CreateMdiaMp4Box pk p = Inr mdia" for mdia
    using that ts du ne
    by (auto simp: CreateMdiaMp4Box_def Let_def dest!: Mp4BoxReplaceChildren_Inr split: sum.splits)
  have ok: "\<exists>mdia. CreateMdiaMp4Box pk p = Inr mdia"
    if "\<forall>b cs. mp4_refuses pk b cs = None" "CreateSampleEntryMp4Box pk p = Inr e" for e
    using CreateMinfMp4Box_accepting [OF that] that(1)
    by (auto simp: CreateMdiaMp4Box_def Let_def Mp4BoxReplaceChildren_accepting)
  show ?thesis using mvhd mdia ok by blast
qed

theorem C10_timescale_truncated_witness:
  "2 ^ 32 \<le> unat (Timescale long_timescale_track)
   \<and> (\<exists>h. (CreateMvhdMp4Box long_timescale_track
             :: (byte list list \<times> byte list list \<times> byte list list) box result) = Inr (MovieHeaderBox h)
        \<and> unat (mvhd_Timescale h) = 10000000
        \<and> unat (mvhd_Timescale h) \<noteq> unat (Timescale long_timescale_track))
   \<and> (\<exists>mdia h rest. CreateMdiaMp4Box h26x long_timescale_track = Inr mdia
        \<and> mdia = MediaBox (MediaHeaderBox h # rest)
        \<and> unat (mdhd_Timescale h) = 10000000
        \<and> unat (mdhd_Timescale h) \<noteq> unat (Timescale long_timescale_track))"
proof -
  let ?p = long_timescale_track
  have ts: "unat (Timescale ?p) = 4304967296"
    by (simp add: long_timescale_track_def)
  have "\<exists>c. CreateAvcCMp4Box h26x ?p = Inr c"
    using avc_private_data_avcC [of ?p] by (simp add: long_timescale_track_def avc_track_def)
  then have "\<exists>e. CreateSampleEntryMp4Box h26x ?p = Inr e"
    using CreateSampleEntryMp4Box_avc_accepting [OF h26x_accepting, of ?p]
    by (auto simp: long_timescale_track_def avc_track_def)
  with C10_timescale_truncated [of ?p h26x] h26x_accepting
  obtain mdia where m: "CreateMdiaMp4Box h26x ?p = Inr mdia" by blast
  from C10_timescale_truncated [of ?p h26x] m ts show ?thesis
    by auto
qed

subsection \<open>The resolved timeline\<close>

lemma expand_length: "length (expand s d r) = r"
  by (simp add: expand_def)

lemma resolve_start_explicit:
  "resolve_start tol prev g = Inr s \<Longrightarrow> frag_Time g = Some t \<Longrightarrow> s = unat t"
  by (auto simp: resolve_start_def split: if_splits)

lemma resolve_duration_explicit:
  "resolve_duration pd s g rest = Inr d \<Longrightarrow> frag_Duration g = Some x \<Longrightarrow> d = unat x"
  by (auto simp: resolve_duration_def)

lemma resolve_groups_blocks:
  "resolve_groups pd tol prev gs = Inr blocks \<Longrightarrow>
   length blocks = length gs \<and>
   (\<forall>i<length gs. \<exists>s d. blocks ! i = expand s d (repeatCount (gs ! i))
      \<and> (\<forall>t. frag_Time (gs ! i) = Some t \<longrightarrow> s = unat t)
      \<and> (\<forall>x. frag_Duration (gs ! i) = Some x \<longrightarrow> d = unat x))"
proof (induction gs arbitrary: prev blocks)
  case Nil
  then show ?case by simp
next
  case (Cons g rest)
  from Cons.prems obtain s d bs where s: "resolve_start tol prev g = Inr s"
      and d: "resolve_duration pd s g rest = Inr d"
      and bs: "resolve_groups pd tol (if repeatCount g = 0 then prev else s + repeatCount g * d) rest = Inr bs"
      and blocks: "blocks = expand s d (repeatCount g) # bs"
    by (auto simp: Let_def split: sum.splits)
  note ih = Cons.IH [OF bs]
  show ?case
  proof (intro conjI allI impI)
    show "length blocks = length (g # rest)" using ih blocks by simp
  next
    fix i assume i: "i < length (g # rest)"
    show "\<exists>s d. blocks ! i = expand s d (repeatCount ((g # rest) ! i))
      \<and> (\<forall>t. frag_Time ((g # rest) ! i) = Some t \<longrightarrow> s = unat t)
      \<and> (\<forall>x. frag_Duration ((g # rest) ! i) = Some x \<longrightarrow> d = unat x)"
    proof (cases i)
      case 0
      then show ?thesis
        using blocks resolve_start_explicit [OF s] resolve_duration_explicit [OF d] by auto
    next
      case (Suc j)
      then show ?thesis using ih i blocks by simp
    qed
  qed
qed

lemma number_from_pairs:
  "map (\<lambda>f. (startTimeTicks f, durationTicks f)) (number_from i xs) = xs"
  by (induction i xs rule: number_from.induct) auto

lemma number_from_index: "map sequenceIndex (number_from i xs) = [i..<i + length xs]"
  by (induction i xs rule: number_from.induct) (auto simp: upt_rec)

lemma length_concat_blocks:
  "length blocks = length gs \<Longrightarrow> \<forall>i<length gs. length (blocks ! i) = repeatCount (gs ! i) \<Longrightarrow>
   length (concat blocks) = sum_list (map repeatCount gs)"
proof (induction blocks arbitrary: gs)
  case Nil
  then show ?case by simp
next
  case (Cons b bs)
  then obtain g rest where gs: "gs = g # rest" by (cases gs) auto
  with Cons.prems have "length bs = length rest"
    "\<forall>i<length rest. length (bs ! i) = repeatCount (rest ! i)" "length b = repeatCount g"
    by fastforce+
  with Cons.IH [of rest] gs show ?case by simp
qed

text \<open>
  C8: a resolved timeline is the concatenation of one block for each fragment group, in
  order; the block of a group has \<open>repeatCount\<close> entries (1 when the group gives none), all
  of the same duration \<open>d\<close>, the \<open>k\<close>-th starting at \<open>s + k * d\<close>, where \<open>s\<close> is the
  explicit time of the group and \<open>d\<close> its explicit duration when it has them. The number
  of resolved fragments is the sum of the repeat counts and the sequence indices count
  from 0. One group with start 0, duration 500 and repeat 3 resolves to three fragments
  starting at 0, 500 and 1000, each of duration 500.
\<close>

theorem C8_repeat_expansion:
  "(\<forall>fs. ResolveTimeline pd tol gs = Inr fs \<longrightarrow>
      (\<exists>blocks. map (\<lambda>f. (startTimeTicks f, durationTicks f)) fs = concat blocks
         \<and> length blocks = length gs
         \<and> (\<forall>i<length gs. \<exists>s d.
               blocks ! i = map (\<lambda>k. (s + k * d, d)) [0..<repeatCount (gs ! i)]
               \<and> (\<forall>t. frag_Time (gs ! i) = Some t \<longrightarrow> s = unat t)
               \<and> (\<forall>x. frag_Duration (gs ! i) = Some x \<longrightarrow> d = unat x)))
      \<and> length fs = sum_list (map repeatCount gs)
      \<and> map sequenceIndex fs = [0..<length fs])
   \<and> ResolveTimeline pd tol
        [\<lparr> frag_Number = None, frag_Duration = Some 500, frag_Time = Some 0,
           frag_Repeat = Some 3, frag_TrackFragments = [] \<rparr>]
      = Inr [\<lparr> startTimeTicks = 0, durationTicks = 500, sequenceIndex = 0 \<rparr>,
             \<lparr> startTimeTicks = 500, durationTicks = 500, sequenceIndex = 1 \<rparr>,
             \<lparr> startTimeTicks = 1000, durationTicks = 500, sequenceIndex = 2 \<rparr>]"
proof (intro conjI allI impI)
  fix fs assume r: "ResolveTimeline pd tol gs = Inr fs"
  then obtain blocks where b: "resolve_groups pd tol 0 gs = Inr blocks"
      and fs: "fs = number_from 0 (concat blocks)"
    by (auto simp: ResolveTimeline_def split: sum.splits)
  note bl = resolve_groups_blocks [OF b]
  show "\<exists>blocks. map (\<lambda>f. (startTimeTicks f, durationTicks f)) fs = concat blocks
         \<and> length blocks = length gs
         \<and> (\<forall>i<length gs. \<exists>s d.
               blocks ! i = map (\<lambda>k. (s + k * d, d)) [0..<repeatCount (gs ! i)]
               \<and> (\<forall>t. frag_Time (gs ! i) = Some t \<longrightarrow> s = unat t)
               \<and> (\<forall>x. frag_Duration (gs ! i) = Some x \<longrightarrow> d = unat x))"
    using bl fs by (auto simp: number_from_pairs expand_def intro!: exI [of _ blocks])
  have "\<forall>i<length gs. length (blocks ! i) = repeatCount (gs ! i)"
    using bl by (auto simp: expand_def)
  then have "length (concat blocks) = sum_list (map repeatCount gs)"
    using bl length_concat_blocks by blast
  moreover have "length fs = length (concat blocks)"
    using fs number_from_pairs [of 0 "concat blocks"] by (metis length_map)
  ultimately show "length fs = sum_list (map repeatCount gs)" by simp
  show "map sequenceIndex fs = [0..<length fs]"
    using fs number_from_index [of 0 "concat blocks"] \<open>length fs = length (concat blocks)\<close> by simp
next
  show "ResolveTimeline pd tol
        [\<lparr> frag_Number = None, frag_Duration = Some 500, frag_Time = Some 0,
           frag_Repeat = Some 3, frag_TrackFragments = [] \<rparr>]
      = Inr [\<lparr> startTimeTicks = 0, durationTicks = 500, sequenceIndex = 0 \<rparr>,
             \<lparr> startTimeTicks = 500, durationTicks = 500, sequenceIndex = 1 \<rparr>,
             \<lparr> startTimeTicks = 1000, durationTicks = 500, sequenceIndex = 2 \<rparr>]"
    by (simp add: ResolveTimeline_def resolve_start_def resolve_duration_def repeatCount_def
        expand_def Let_def upt_rec)
qed


theorem C8_repeat_expansion_witness:
  "\<exists>fs blocks. ResolveTimeline 1500 False [repeat_group] = Inr fs
     \<and> map (\<lambda>f. (startTimeTicks f, durationTicks f)) fs = concat blocks
     \<and> blocks = [[(0, 500), (500, 500), (1000, 500)]]
     \<and> length fs = 3
     \<and> map sequenceIndex fs = [0, 1, 2]"
proof -
  note inst = C8_repeat_expansion [of 1500 False "[repeat_group]"]
  from inst obtain fs where fs: "ResolveTimeline 1500 False [repeat_group] = Inr fs"
    by (auto simp: repeat_group_def)
  have rc: "repeatCount repeat_group = 3" "frag_Time repeat_group = Some 0"
    "frag_Duration repeat_group = Some 500"
    by (simp_all add: repeatCount_def repeat_group_def)
  from inst fs obtain blocks where b:
      "map (\<lambda>f. (startTimeTicks f, durationTicks f)) fs = concat blocks"
      "length blocks = 1"
      "\<exists>s d. blocks ! 0 = map (\<lambda>k. (s + k * d, d)) [0..<repeatCount repeat_group]
         \<and> (\<forall>t. frag_Time repeat_group = Some t \<longrightarrow> s = unat t)
         \<and> (\<forall>x. frag_Duration repeat_group = Some x \<longrightarrow> d = unat x)"
      and n: "length fs = sum_list (map repeatCount [repeat_group])"
             "map sequenceIndex fs = [0..<length fs]"
    by auto
  from b(3) rc have "blocks ! 0 = [(0, 500), (500, 500), (1000, 500)]"
    by (auto simp: upt_rec)
  with b(2) have bl: "blocks = [[(0, 500), (500, 500), (1000, 500)]]"
    by (cases blocks) auto
  from n rc have len: "length fs = 3" "map sequenceIndex fs = [0, 1, 2]"
    by (auto simp: upt_rec)
  show ?thesis
    by (rule exI [of _ fs], rule exI [of _ blocks]) (simp add: fs b(1) bl [symmetric] len)
qed

end
